theory Spec2Isabelle
  imports Main "HOL-Library.Sublist"
begin

text \<open>
  The job-result pipeline of the Xiaomi jobs demos: \<^verbatim>\<open>print_job_results\<close>
  (sample-query.py), \<^verbatim>\<open>format_job_results\<close> (xiaomi_jobs_mcp.py),
  \<^verbatim>\<open>search_jobs_internal\<close> (fastapi_wrapper.py) and the location extraction they share
  with \<^verbatim>\<open>XiaomiJobsA2AAgent._extract_locations\<close> (google_a2a_sample.py). Each function
  is a total function of the document it is given and of the runtime it runs in; a Python
  exception is a value of the result.
\<close>

section \<open>JSON documents as Python sees them\<close>

text \<open>
  The repository's functions receive the document that \<^verbatim>\<open>response.json()\<close> built:
  \<^verbatim>\<open>None\<close>, \<^verbatim>\<open>bool\<close>, \<^verbatim>\<open>int\<close>, \<^verbatim>\<open>str\<close>, \<^verbatim>\<open>list\<close> and \<^verbatim>\<open>dict\<close> values.
  A Python \<^verbatim>\<open>str\<close> is a sequence of Unicode code points and \<^verbatim>\<open>len\<close> counts code points,
  so a string is a list of code points here (the job texts are Chinese). A \<^verbatim>\<open>dict\<close> is
  the list of its items in insertion order, with distinct keys. JSON numbers with a
  fraction or an exponent (Python \<^verbatim>\<open>float\<close>) are left out of the model: no field the
  repository reads is one.
\<close>

type_synonym pystr = "nat list"

datatype json =
    JNull
  | JBool bool
  | JInt int
  | JStr pystr
  | JList "json list"
  | JObj "(pystr \<times> json) list"

type_synonym obj = "(pystr \<times> json) list"

datatype error = TypeError | AttributeError | UnicodeEncodeError | ValidationError | HTTPException

text \<open>
  What the functions take from their surroundings: the Unicode table of the interpreter
  (\<^verbatim>\<open>str.isprintable\<close> on one code point, used by \<^verbatim>\<open>repr\<close>), the code points that
  the encoding of \<^verbatim>\<open>sys.stdout\<close> accepts, and what the installed pydantic does with a
  value that is not already of the declared type of an \<^verbatim>\<open>int\<close> field or of an
  \<^verbatim>\<open>Optional[str]\<close> field (\<open>None\<close> is a validation error). None of the four is
  fixed by the repository.
\<close>

record runtime =
  isprintable :: "nat \<Rightarrow> bool"
  stdout_encodes :: "nat \<Rightarrow> bool"
  coerce_int :: "json \<Rightarrow> int option"
  coerce_str :: "json \<Rightarrow> pystr option option"

definition ustr :: "string \<Rightarrow> pystr" where
  \<comment> \<open>a string literal of the source, as code points\<close>
  "ustr s = map of_char s"

subsection \<open>Built-in operations\<close>

fun truthy :: "json \<Rightarrow> bool" where
  \<comment> \<open>\<^verbatim>\<open>if x:\<close>\<close>
  "truthy JNull = False"
| "truthy (JBool b) = b"
| "truthy (JInt i) = (i \<noteq> 0)"
| "truthy (JStr s) = (s \<noteq> [])"
| "truthy (JList xs) = (xs \<noteq> [])"
| "truthy (JObj kvs) = (kvs \<noteq> [])"

fun ne_zero :: "json \<Rightarrow> bool" where
  \<comment> \<open>\<^verbatim>\<open>x != 0\<close>: \<^verbatim>\<open>False == 0\<close> holds in Python, every non-number differs from 0\<close>
  "ne_zero (JInt i) = (i \<noteq> 0)"
| "ne_zero (JBool b) = b"
| "ne_zero v = True"

definition dict_get :: "obj \<Rightarrow> pystr \<Rightarrow> json" where
  \<comment> \<open>\<^verbatim>\<open>d.get(k)\<close>: \<^verbatim>\<open>None\<close> when the key is missing\<close>
  "dict_get d k = (case map_of d k of None \<Rightarrow> JNull | Some v \<Rightarrow> v)"

definition dict_get_default :: "obj \<Rightarrow> pystr \<Rightarrow> json \<Rightarrow> json" where
  \<comment> \<open>\<^verbatim>\<open>d.get(k, default)\<close>\<close>
  "dict_get_default d k dflt = (case map_of d k of None \<Rightarrow> dflt | Some v \<Rightarrow> v)"

fun is_substring :: "pystr \<Rightarrow> pystr \<Rightarrow> bool" where
  "is_substring xs [] = (xs = [])"
| "is_substring xs (y # ys) = (prefix xs (y # ys) \<or> is_substring xs ys)"

fun py_contains :: "json \<Rightarrow> pystr \<Rightarrow> error + bool" where
  \<comment> \<open>\<^verbatim>\<open>k in x\<close> for a string \<open>k\<close>: key of a dict, element of a list, substring of a
      string; anything else is not iterable\<close>
  "py_contains (JObj kvs) k = Inr (map_of kvs k \<noteq> None)"
| "py_contains (JList xs) k = Inr (JStr k \<in> set xs)"
| "py_contains (JStr s) k = Inr (is_substring k s)"
| "py_contains v k = Inl TypeError"

fun subscript :: "json \<Rightarrow> pystr \<Rightarrow> error + json" where
  \<comment> \<open>\<^verbatim>\<open>x[k]\<close> for a string \<open>k\<close> already known to satisfy \<^verbatim>\<open>k in x\<close>: lists and strings
      take integer indices only\<close>
  "subscript (JObj kvs) k = Inr (dict_get kvs k)"
| "subscript v k = Inl TypeError"

fun py_len :: "json \<Rightarrow> error + nat" where
  "py_len (JList xs) = Inr (length xs)"
| "py_len (JStr s) = Inr (length s)"
| "py_len (JObj kvs) = Inr (length kvs)"
| "py_len v = Inl TypeError"

fun py_iter :: "json \<Rightarrow> error + json list" where
  \<comment> \<open>\<^verbatim>\<open>for x in v\<close>: the elements of a list, the one-character strings of a string,
      the keys of a dict\<close>
  "py_iter (JList xs) = Inr xs"
| "py_iter (JStr s) = Inr (map (\<lambda>c. JStr [c]) s)"
| "py_iter (JObj kvs) = Inr (map (\<lambda>kv. JStr (fst kv)) kvs)"
| "py_iter v = Inl TypeError"

subsection \<open>\<^verbatim>\<open>str()\<close> and \<^verbatim>\<open>repr()\<close>\<close>

text \<open>
  \<^verbatim>\<open>str\<close> of a string is the string; of \<^verbatim>\<open>None\<close>, a boolean or an integer it is the
  Python literal; of a list or a dict it is the display form, whose strings are quoted and
  escaped by \<^verbatim>\<open>repr\<close>. Which code points above ASCII \<^verbatim>\<open>repr\<close> copies and which it
  escapes is decided by the Unicode character database; that table is the parameter
  \<open>P\<close> of everything that renders a value (the field \<open>isprintable\<close> of the runtime).
\<close>

fun intercalate :: "'a list \<Rightarrow> 'a list list \<Rightarrow> 'a list" where
  \<comment> \<open>\<^verbatim>\<open>sep.join(xs)\<close> on strings\<close>
  "intercalate sep [] = []"
| "intercalate sep [x] = x"
| "intercalate sep (x # y # ys) = x @ sep @ intercalate sep (y # ys)"

fun str_nat :: "nat \<Rightarrow> pystr" where
  "str_nat n = (if n < 10 then [48 + n] else str_nat (n div 10) @ [48 + n mod 10])"

declare str_nat.simps [simp del]

definition str_int :: "int \<Rightarrow> pystr" where
  "str_int i = (if i < 0 then 45 # str_nat (nat (- i)) else str_nat (nat i))"

definition hex_digit :: "nat \<Rightarrow> nat" where
  "hex_digit d = (if d < 10 then 48 + d else 87 + d)"

fun hex_fixed :: "nat \<Rightarrow> nat \<Rightarrow> pystr" where
  \<comment> \<open>the last \<open>w\<close> hexadecimal digits of \<open>n\<close>, lower case\<close>
  "hex_fixed 0 n = []"
| "hex_fixed (Suc w) n = hex_fixed w (n div 16) @ [hex_digit (n mod 16)]"

definition repr_char :: "(nat \<Rightarrow> bool) \<Rightarrow> nat \<Rightarrow> nat \<Rightarrow> pystr" where
  \<comment> \<open>one code point \<open>c\<close> inside quotes \<open>q\<close>; 92 is the backslash\<close>
  "repr_char P q c =
     (if c = q \<or> c = 92 then [92, c]
      else if c = 9 then [92, 116]
      else if c = 10 then [92, 110]
      else if c = 13 then [92, 114]
      else if c < 32 \<or> c = 127 then [92, 120] @ hex_fixed 2 c
      else if c < 127 then [c]
      else if P c then [c]
      else if c < 256 then [92, 120] @ hex_fixed 2 c
      else if c < 65536 then [92, 117] @ hex_fixed 4 c
      else [92, 85] @ hex_fixed 8 c)"

definition repr_str :: "(nat \<Rightarrow> bool) \<Rightarrow> pystr \<Rightarrow> pystr" where
  \<comment> \<open>single quotes, unless the string has a single quote (39) and no double quote (34)\<close>
  "repr_str P s =
     (let q = (if 39 \<in> set s \<and> 34 \<notin> set s then 34 else 39)
      in [q] @ concat (map (repr_char P q) s) @ [q])"

fun py_repr :: "(nat \<Rightarrow> bool) \<Rightarrow> json \<Rightarrow> pystr" where
  "py_repr P JNull = ustr ''None''"
| "py_repr P (JBool b) = (if b then ustr ''True'' else ustr ''False'')"
| "py_repr P (JInt i) = str_int i"
| "py_repr P (JStr s) = repr_str P s"
| "py_repr P (JList xs) =
     ustr ''['' @ intercalate (ustr '', '') (map (py_repr P) xs) @ ustr '']''"
| "py_repr P (JObj kvs) =
     ustr ''{'' @ intercalate (ustr '', '')
        (map (\<lambda>kv. repr_str P (fst kv) @ ustr '': '' @ py_repr P (snd kv)) kvs) @ ustr ''}''"

fun py_str :: "(nat \<Rightarrow> bool) \<Rightarrow> json \<Rightarrow> pystr" where
  "py_str P (JStr s) = s"
| "py_str P v = py_repr P v"

fun py_get :: "json \<Rightarrow> pystr \<Rightarrow> json \<Rightarrow> error + json" where
  \<comment> \<open>\<^verbatim>\<open>x.get(k, default)\<close>: only a dict has the method\<close>
  "py_get (JObj kvs) k dflt = Inr (dict_get_default kvs k dflt)"
| "py_get v k dflt = Inl AttributeError"

fun strs_of :: "json list \<Rightarrow> error + pystr list" where
  "strs_of [] = Inr []"
| "strs_of (JStr s # xs) = (case strs_of xs of Inl e \<Rightarrow> Inl e | Inr ss \<Rightarrow> Inr (s # ss))"
| "strs_of (v # xs) = Inl TypeError"

definition py_join :: "pystr \<Rightarrow> json list \<Rightarrow> error + pystr" where
  \<comment> \<open>\<^verbatim>\<open>sep.join(xs)\<close>: every item must be a string\<close>
  "py_join sep xs = (case strs_of xs of Inl e \<Rightarrow> Inl e | Inr ss \<Rightarrow> Inr (intercalate sep ss))"

definition py_isspace :: "nat \<Rightarrow> bool" where
  \<comment> \<open>the code points \<^verbatim>\<open>str.strip()\<close> removes\<close>
  "py_isspace c =
     ((9 \<le> c \<and> c \<le> 13) \<or> (28 \<le> c \<and> c \<le> 32) \<or> c = 133 \<or> c = 160 \<or> c = 5760
      \<or> (8192 \<le> c \<and> c \<le> 8202) \<or> c = 8232 \<or> c = 8233 \<or> c = 8239 \<or> c = 8287
      \<or> c = 12288)"

definition py_strip :: "pystr \<Rightarrow> pystr" where
  "py_strip s = rev (dropWhile py_isspace (rev (dropWhile py_isspace s)))"

definition py_replace :: "nat \<Rightarrow> nat \<Rightarrow> pystr \<Rightarrow> pystr" where
  \<comment> \<open>\<^verbatim>\<open>s.replace(a, b)\<close> for one-character \<open>a\<close> and \<open>b\<close>\<close>
  "py_replace a b s = map (\<lambda>c. if c = a then b else c) s"

section \<open>The per-job pieces\<close>

text \<open>
  The location loop is written out four times in the repository
  (\<^verbatim>\<open>print_job_results\<close>, \<^verbatim>\<open>format_job_results\<close>, \<^verbatim>\<open>search_jobs_internal\<close> and
  \<^verbatim>\<open>XiaomiJobsA2AAgent._extract_locations\<close>), each time with the same text:
  \<^verbatim>\<open>
  locations = []
  if job.get('city_info'):
      city_info = job['city_info']
      if isinstance(city_info, dict):
          locations.append(city_info.get('name', str(city_info)))
      else:
          locations.append(str(city_info))
  elif job.get('city_list'):
      for city in job['city_list']:
          if isinstance(city, dict):
              locations.append(city.get('name', str(city)))
          else:
              locations.append(str(city))
  \<close>
\<close>

definition single_location :: "(nat \<Rightarrow> bool) \<Rightarrow> json \<Rightarrow> json" where
  "single_location P city =
     (case city of
        JObj c \<Rightarrow> dict_get_default c (ustr ''name'') (JStr (py_str P city))
      | _ \<Rightarrow> JStr (py_str P city))"

definition extract_locations :: "(nat \<Rightarrow> bool) \<Rightarrow> obj \<Rightarrow> error + json list" where
  "extract_locations P job =
     (if truthy (dict_get job (ustr ''city_info''))
      then Inr [single_location P (dict_get job (ustr ''city_info''))]
      else if truthy (dict_get job (ustr ''city_list''))
      then (case py_iter (dict_get job (ustr ''city_list'')) of
              Inl e \<Rightarrow> Inl e
            | Inr cities \<Rightarrow> Inr (map (single_location P) cities))
      else Inr [])"

definition location_str :: "json list \<Rightarrow> error + pystr" where
  \<comment> \<open>\<^verbatim>\<open>", ".join(locations) if locations else "N/A"\<close>\<close>
  "location_str locations =
     (if locations \<noteq> [] then py_join (ustr '', '') locations else Inr (ustr ''N/A''))"

definition detail_url :: "(nat \<Rightarrow> bool) \<Rightarrow> obj \<Rightarrow> pystr" where
  \<comment> \<open>\<^verbatim>\<open>f"https://xiaomi.jobs.f.mioffice.cn/index/position/{job.get('id', '')}/detail"\<close>\<close>
  "detail_url P job =
     ustr ''https://xiaomi.jobs.f.mioffice.cn/index/position/''
     @ py_str P (dict_get_default job (ustr ''id'') (JStr [])) @ ustr ''/detail''"

definition clean_text :: "pystr \<Rightarrow> pystr" where
  \<comment> \<open>\<^verbatim>\<open>text.replace('\n', ' ').replace('\r', ' ').strip()\<close>\<close>
  "clean_text s = py_strip (py_replace 13 32 (py_replace 10 32 s))"

definition preview :: "nat \<Rightarrow> pystr \<Rightarrow> pystr" where
  \<comment> \<open>\<^verbatim>\<open>clean[:b] + "..." if len(clean) > b else clean\<close>\<close>
  "preview b clean = (if length clean > b then take b clean @ ustr ''...'' else clean)"

definition text_preview :: "nat \<Rightarrow> json \<Rightarrow> error + pystr option" where
  \<comment> \<open>the block under \<^verbatim>\<open>if description:\<close>; \<open>None\<close> when the block is skipped, an
      \<^verbatim>\<open>AttributeError\<close> when the value is truthy and has no \<^verbatim>\<open>replace\<close>\<close>
  "text_preview b v =
     (if truthy v
      then (case v of JStr s \<Rightarrow> Inr (Some (preview b (clean_text s))) | _ \<Rightarrow> Inl AttributeError)
      else Inr None)"

section \<open>Output\<close>

text \<open>
  Each constructor is one output template of the source, holding the text that the
  f-string puts into it; \<open>line_text\<close> is the string itself, with the code points of the
  emoji.
\<close>

datatype line =
    ErrorLine pystr             \<comment> \<open>\<^verbatim>\<open>Error: {data['error']}\<close>\<close>
  | ApiErrorLine pystr          \<comment> \<open>\<^verbatim>\<open>API Error: {data.get('message', 'Unknown error')}\<close>\<close>
  | NoDataKeyLine               \<comment> \<open>\<^verbatim>\<open>No 'data' key found in response\<close>\<close>
  | NoJobListKeyLine            \<comment> \<open>\<^verbatim>\<open>No 'job_post_list' key found in data section\<close>\<close>
  | FoundLine pystr nat         \<comment> \<open>\<^verbatim>\<open>Found {total_count} job(s), showing {len(job_posts)} results\<close>\<close>
  | NoPostingsLine              \<comment> \<open>\<^verbatim>\<open>No job postings found\<close>\<close>
  | RuleLine                    \<comment> \<open>\<^verbatim>\<open>"=" * 80\<close>\<close>
  | TitleLine nat pystr         \<comment> \<open>\<^verbatim>\<open>{i}. {job.get('title', 'N/A')}\<close>\<close>
  | JobCodeLine pystr           \<comment> \<open>\<^verbatim>\<open>Job Code: {job.get('code', 'N/A')}\<close>\<close>
  | LocationLine pystr          \<comment> \<open>\<^verbatim>\<open>Location: {location_str}\<close>\<close>
  | TypeLine pystr              \<comment> \<open>\<^verbatim>\<open>Type: {recruit_type}\<close>\<close>
  | UrlLine pystr               \<comment> \<open>\<^verbatim>\<open>URL: https://.../position/{job_id}/detail\<close>\<close>
  | DescriptionLine pystr       \<comment> \<open>\<^verbatim>\<open>Description: {desc_preview}\<close>\<close>
  | RequirementsLine pystr      \<comment> \<open>\<^verbatim>\<open>Requirements: {req_preview}\<close>\<close>
  | BlankLine                   \<comment> \<open>\<^verbatim>\<open>print()\<close>\<close>

fun line_text :: "line \<Rightarrow> pystr" where
  \<comment> \<open>10060 is the cross mark, 128203 the clipboard, 128237 the mailbox, 127380 the ID
      button, 128205 the pin, 128188 the briefcase, 128279 the link, 128221 the memo; 39 is
      the single quote\<close>
  "line_text (ErrorLine t) = [10060] @ ustr '' Error: '' @ t"
| "line_text (ApiErrorLine t) = [10060] @ ustr '' API Error: '' @ t"
| "line_text NoDataKeyLine =
     [10060] @ ustr '' No '' @ [39] @ ustr ''data'' @ [39] @ ustr '' key found in response''"
| "line_text NoJobListKeyLine =
     [10060] @ ustr '' No '' @ [39] @ ustr ''job_post_list'' @ [39]
     @ ustr '' key found in data section''"
| "line_text (FoundLine t n) =
     [128203] @ ustr '' Found '' @ t @ ustr '' job(s), showing '' @ str_nat n @ ustr '' results''"
| "line_text NoPostingsLine = [128237] @ ustr '' No job postings found''"
| "line_text RuleLine = replicate 80 61"
| "line_text (TitleLine i t) = str_nat i @ ustr ''. '' @ t"
| "line_text (JobCodeLine t) = ustr ''   '' @ [127380] @ ustr '' Job Code: '' @ t"
| "line_text (LocationLine t) = ustr ''   '' @ [128205] @ ustr '' Location: '' @ t"
| "line_text (TypeLine t) = ustr ''   '' @ [128188] @ ustr '' Type: '' @ t"
| "line_text (UrlLine t) = ustr ''   '' @ [128279] @ ustr '' URL: '' @ t"
| "line_text (DescriptionLine t) = ustr ''   '' @ [128221] @ ustr '' Description: '' @ t"
| "line_text (RequirementsLine t) = ustr ''   '' @ [128203] @ ustr '' Requirements: '' @ t"
| "line_text BlankLine = []"

definition opt_line :: "(pystr \<Rightarrow> line) \<Rightarrow> pystr option \<Rightarrow> line list" where
  "opt_line mk p = (case p of None \<Rightarrow> [] | Some t \<Rightarrow> [mk t])"

subsection \<open>\<^verbatim>\<open>print\<close>\<close>

text \<open>
  \<^verbatim>\<open>print\<close> encodes the whole string for \<^verbatim>\<open>sys.stdout\<close> before it writes any of it: a
  string with a code point that the encoding of stdout does not accept raises
  \<^verbatim>\<open>UnicodeEncodeError\<close> and prints nothing, and what was printed before stays printed.
  A lone surrogate, which \<^verbatim>\<open>json.loads\<close> delivers for an escaped half of a surrogate
  pair, is such a code point for UTF-8. The newline that ends the line is taken to be
  encodable.
\<close>

definition encodable :: "(nat \<Rightarrow> bool) \<Rightarrow> line \<Rightarrow> bool" where
  "encodable E l = list_all E (line_text l)"

fun print_lines :: "(nat \<Rightarrow> bool) \<Rightarrow> line list \<Rightarrow> line list \<times> error option" where
  \<comment> \<open>a run of \<^verbatim>\<open>print\<close> calls with nothing else between them\<close>
  "print_lines E [] = ([], None)"
| "print_lines E (l # ls) =
     (if encodable E l
      then (case print_lines E ls of (out, r) \<Rightarrow> (l # out, r))
      else ([], Some UnicodeEncodeError))"

definition and_then ::
    "line list \<times> error option \<Rightarrow> line list \<times> error option \<Rightarrow> line list \<times> error option" where
  \<comment> \<open>one statement after another: an exception ends the run\<close>
  "and_then a b =
     (case a of
        (out, Some e) \<Rightarrow> (out, Some e)
      | (out, None) \<Rightarrow> (case b of (out', r) \<Rightarrow> (out @ out', r)))"

section \<open>\<^verbatim>\<open>print_job_results\<close> (sample-query.py)\<close>

text \<open>
  The function prints and returns nothing. Its result here is what it has printed, and
  the exception that ended it, if one did.
\<close>

definition print_job ::
    "(nat \<Rightarrow> bool) \<Rightarrow> (nat \<Rightarrow> bool) \<Rightarrow> nat \<Rightarrow> json \<Rightarrow> line list \<times> error option" where
  \<comment> \<open>one round of the loop, for stdout \<open>E\<close> and table \<open>P\<close>; \<^verbatim>\<open>job.get\<close> raises on
      anything that is not a dict\<close>
  "print_job E P i job =
     (case job of
        JObj j \<Rightarrow>
          and_then
            (print_lines E
               [TitleLine i (py_str P (dict_get_default j (ustr ''title'') (JStr (ustr ''N/A'')))),
                JobCodeLine (py_str P (dict_get_default j (ustr ''code'') (JStr (ustr ''N/A''))))])
            (case extract_locations P j of
               Inl e \<Rightarrow> ([], Some e)
             | Inr locations \<Rightarrow>
            (case location_str locations of
               Inl e \<Rightarrow> ([], Some e)
             | Inr ls \<Rightarrow>
          and_then
            (print_lines E
               [LocationLine ls,
                TypeLine (py_str P (dict_get_default j (ustr ''recruit_type'') (JStr (ustr ''N/A'')))),
                UrlLine (detail_url P j)])
            (case text_preview 150 (dict_get_default j (ustr ''description'') (JStr [])) of
               Inl e \<Rightarrow> ([], Some e)
             | Inr d \<Rightarrow>
          and_then
            (print_lines E (opt_line DescriptionLine d))
            (case text_preview 100 (dict_get_default j (ustr ''requirement'') (JStr [])) of
               Inl e \<Rightarrow> ([], Some e)
             | Inr r \<Rightarrow> print_lines E (opt_line RequirementsLine r @ [BlankLine])))))
      | _ \<Rightarrow> ([], Some AttributeError))"

fun print_jobs ::
    "(nat \<Rightarrow> bool) \<Rightarrow> (nat \<Rightarrow> bool) \<Rightarrow> nat \<Rightarrow> json list \<Rightarrow> line list \<times> error option" where
  \<comment> \<open>\<^verbatim>\<open>for i, job in enumerate(job_posts, 1)\<close>\<close>
  "print_jobs E P i [] = ([], None)"
| "print_jobs E P i (job # rest) = and_then (print_job E P i job) (print_jobs E P (Suc i) rest)"

definition print_job_results :: "runtime \<Rightarrow> obj \<Rightarrow> line list \<times> error option" where
  "print_job_results rt data =
     (if truthy (dict_get data (ustr ''error''))
      then print_lines (stdout_encodes rt)
             [ErrorLine (py_str (isprintable rt) (dict_get data (ustr ''error'')))]
      else if ne_zero (dict_get data (ustr ''code''))
      then print_lines (stdout_encodes rt)
             [ApiErrorLine (py_str (isprintable rt)
                (dict_get_default data (ustr ''message'') (JStr (ustr ''Unknown error''))))]
      else case map_of data (ustr ''data'') of
        None \<Rightarrow> print_lines (stdout_encodes rt) [NoDataKeyLine]
      | Some data_section \<Rightarrow>
     (case py_contains data_section (ustr ''job_post_list'') of
        Inl e \<Rightarrow> ([], Some e)
      | Inr False \<Rightarrow> print_lines (stdout_encodes rt) [NoJobListKeyLine]
      | Inr True \<Rightarrow>
     (case subscript data_section (ustr ''job_post_list'') of
        Inl e \<Rightarrow> ([], Some e)
      | Inr job_posts \<Rightarrow>
     (case py_len job_posts of
        Inl e \<Rightarrow> ([], Some e)
      | Inr n \<Rightarrow>
     (case py_get data_section (ustr ''count'') (JInt (int n)) of
        Inl e \<Rightarrow> ([], Some e)
      | Inr total_count \<Rightarrow>
          and_then
            (print_lines (stdout_encodes rt) [FoundLine (py_str (isprintable rt) total_count) n])
            (if n = 0 then print_lines (stdout_encodes rt) [NoPostingsLine]
             else and_then
                    (print_lines (stdout_encodes rt) [RuleLine])
                    (case py_iter job_posts of
                       Inl e \<Rightarrow> ([], Some e)
                     | Inr posts \<Rightarrow>
                         print_jobs (stdout_encodes rt) (isprintable rt) 1 posts)))))))"

section \<open>\<^verbatim>\<open>format_job_results\<close> (xiaomi_jobs_mcp.py)\<close>

text \<open>
  The function returns one string: one of four fixed messages, or the header and the
  blocks of the jobs joined by blank lines. It prints nothing. An exception leaves no
  result.
\<close>

datatype report =
    ErrorReport pystr           \<comment> \<open>\<^verbatim>\<open>Error: {data['error']}\<close>\<close>
  | ApiErrorReport pystr        \<comment> \<open>\<^verbatim>\<open>API Error: {data.get('message', 'Unknown error')}\<close>\<close>
  | NoJobDataReport             \<comment> \<open>\<^verbatim>\<open>No job data found in response\<close>\<close>
  | NoPostingsReport pystr      \<comment> \<open>\<^verbatim>\<open>No job postings found (Total: {total_count})\<close>\<close>
  | ResultsReport pystr nat "line list list"
      \<comment> \<open>\<^verbatim>\<open>Found {total_count} job(s), showing {len(job_posts)} results\<close>, the rule, and
          one block of lines for each job\<close>

definition format_job :: "(nat \<Rightarrow> bool) \<Rightarrow> nat \<Rightarrow> json \<Rightarrow> error + line list" where
  "format_job P i job =
     (case job of
        JObj j \<Rightarrow>
          (case extract_locations P j of
             Inl e \<Rightarrow> Inl e
           | Inr locations \<Rightarrow>
          (case location_str locations of
             Inl e \<Rightarrow> Inl e
           | Inr ls \<Rightarrow>
          (case text_preview 150 (dict_get j (ustr ''description'')) of
             Inl e \<Rightarrow> Inl e
           | Inr d \<Rightarrow>
          (case text_preview 100 (dict_get j (ustr ''requirement'')) of
             Inl e \<Rightarrow> Inl e
           | Inr r \<Rightarrow>
               Inr ([TitleLine i (py_str P (dict_get_default j (ustr ''title'') (JStr (ustr ''N/A'')))),
                     JobCodeLine (py_str P (dict_get_default j (ustr ''code'') (JStr (ustr ''N/A'')))),
                     LocationLine ls,
                     TypeLine (py_str P (dict_get_default j (ustr ''recruit_type'') (JStr (ustr ''N/A'')))),
                     UrlLine (detail_url P j)]
                    @ opt_line DescriptionLine d @ opt_line RequirementsLine r)))))
      | _ \<Rightarrow> Inl AttributeError)"

fun format_jobs :: "(nat \<Rightarrow> bool) \<Rightarrow> nat \<Rightarrow> json list \<Rightarrow> error + line list list" where
  "format_jobs P i [] = Inr []"
| "format_jobs P i (job # rest) =
     (case format_job P i job of
        Inl e \<Rightarrow> Inl e
      | Inr job_info \<Rightarrow>
          (case format_jobs P (Suc i) rest of
             Inl e \<Rightarrow> Inl e
           | Inr result \<Rightarrow> Inr (job_info # result)))"

definition format_job_results :: "runtime \<Rightarrow> obj \<Rightarrow> error + report" where
  "format_job_results rt data =
     (if truthy (dict_get data (ustr ''error''))
      then Inr (ErrorReport (py_str (isprintable rt) (dict_get data (ustr ''error''))))
      else if ne_zero (dict_get data (ustr ''code''))
      then Inr (ApiErrorReport (py_str (isprintable rt)
                  (dict_get_default data (ustr ''message'') (JStr (ustr ''Unknown error'')))))
      else case map_of data (ustr ''data'') of
        None \<Rightarrow> Inr NoJobDataReport
      | Some data_section \<Rightarrow>
     (case py_contains data_section (ustr ''job_post_list'') of
        Inl e \<Rightarrow> Inl e
      | Inr False \<Rightarrow> Inr NoJobDataReport
      | Inr True \<Rightarrow>
     (case subscript data_section (ustr ''job_post_list'') of
        Inl e \<Rightarrow> Inl e
      | Inr job_posts \<Rightarrow>
     (case py_len job_posts of
        Inl e \<Rightarrow> Inl e
      | Inr n \<Rightarrow>
     (case py_get data_section (ustr ''count'') (JInt (int n)) of
        Inl e \<Rightarrow> Inl e
      | Inr total_count \<Rightarrow>
          if n = 0 then Inr (NoPostingsReport (py_str (isprintable rt) total_count))
          else (case py_iter job_posts of
                  Inl e \<Rightarrow> Inl e
                | Inr posts \<Rightarrow>
                    (case format_jobs (isprintable rt) 1 posts of
                       Inl e \<Rightarrow> Inl e
                     | Inr result \<Rightarrow>
                         Inr (ResultsReport (py_str (isprintable rt) total_count) n result))))))))"

section \<open>\<^verbatim>\<open>search_jobs_internal\<close> (fastapi_wrapper.py)\<close>

text \<open>
  The function is modelled from the document \<^verbatim>\<open>results\<close> that
  \<^verbatim>\<open>jobs_api.search_jobs\<close> returned; the HTTP call before is outside the repository.
  Every exception inside the \<^verbatim>\<open>try\<close> block leaves the function as an
  \<^verbatim>\<open>HTTPException\<close>.
  \<^verbatim>\<open>
  class JobSearchResponse(BaseModel):
      success: bool
      total_count: int
      jobs: List[Dict[str, Any]]
      message: Optional[str] = None
  \<close>
  The constructor validates its arguments against these types. An integer that fits 64
  bits is a valid \<^verbatim>\<open>total_count\<close> and \<^verbatim>\<open>None\<close> is not; \<^verbatim>\<open>None\<close> and a string without
  surrogates are a valid \<^verbatim>\<open>message\<close>. What happens to any other value differs between
  the versions of pydantic (one coerces the string 7 to the number and the number 404 to
  the string, another rejects both), and is read from the runtime. The arguments for
  \<^verbatim>\<open>success\<close> and \<^verbatim>\<open>jobs\<close> are always a boolean and a list of dicts with string keys,
  which are valid.
\<close>

record JobSearchResponse =
  success :: bool
  total_count :: int
  jobs :: "json list"
  message :: "pystr option"

definition is_surrogate :: "nat \<Rightarrow> bool" where
  "is_surrogate c = (55296 \<le> c \<and> c \<le> 57343)"

definition validate_total_count :: "runtime \<Rightarrow> json \<Rightarrow> int option" where
  "validate_total_count rt v =
     (case v of
        JInt i \<Rightarrow> (if - (2 ^ 63) \<le> i \<and> i < 2 ^ 63 then Some i else coerce_int rt v)
      | JNull \<Rightarrow> None
      | _ \<Rightarrow> coerce_int rt v)"

definition validate_message :: "runtime \<Rightarrow> json \<Rightarrow> pystr option option" where
  "validate_message rt v =
     (case v of
        JNull \<Rightarrow> Some None
      | JStr s \<Rightarrow> (if list_ex is_surrogate s then coerce_str rt v else Some (Some s))
      | _ \<Rightarrow> coerce_str rt v)"

definition JobSearchResponse_init ::
    "runtime \<Rightarrow> bool \<Rightarrow> json \<Rightarrow> json list \<Rightarrow> json \<Rightarrow> error + JobSearchResponse" where
  \<comment> \<open>\<^verbatim>\<open>JobSearchResponse(success=s, total_count=tc, jobs=js, message=m)\<close>\<close>
  "JobSearchResponse_init rt s tc js m =
     (case validate_total_count rt tc of
        None \<Rightarrow> Inl ValidationError
      | Some c \<Rightarrow>
          (case validate_message rt m of
             None \<Rightarrow> Inl ValidationError
           | Some msg \<Rightarrow> Inr \<lparr>success = s, total_count = c, jobs = js, message = msg\<rparr>))"

definition truncated :: "nat \<Rightarrow> json \<Rightarrow> error + pystr" where
  \<comment> \<open>\<^verbatim>\<open>v[:200] + "..." if v else ""\<close>: only a string can be sliced and extended by a
      string; which exception the others raise makes no difference to the caller\<close>
  "truncated b v =
     (if truthy v
      then (case v of JStr s \<Rightarrow> Inr (take b s @ ustr ''...'') | _ \<Rightarrow> Inl TypeError)
      else Inr [])"

definition formatted_job :: "(nat \<Rightarrow> bool) \<Rightarrow> json \<Rightarrow> error + json" where
  "formatted_job P job =
     (case job of
        JObj j \<Rightarrow>
          (case truncated 200 (dict_get_default j (ustr ''description'') (JStr [])) of
             Inl e \<Rightarrow> Inl e
           | Inr description \<Rightarrow>
          (case truncated 200 (dict_get_default j (ustr ''requirement'') (JStr [])) of
             Inl e \<Rightarrow> Inl e
           | Inr requirements \<Rightarrow>
          (case extract_locations P j of
             Inl e \<Rightarrow> Inl e
           | Inr locations \<Rightarrow>
               Inr (JObj [(ustr ''id'', dict_get j (ustr ''id'')),
                          (ustr ''title'', dict_get j (ustr ''title'')),
                          (ustr ''code'', dict_get j (ustr ''code'')),
                          (ustr ''description'', JStr description),
                          (ustr ''requirements'', JStr requirements),
                          (ustr ''recruit_type'', dict_get j (ustr ''recruit_type'')),
                          (ustr ''url'', JStr (detail_url P j)),
                          (ustr ''locations'', JList locations)]))))
      | _ \<Rightarrow> Inl AttributeError)"

fun formatted_jobs :: "(nat \<Rightarrow> bool) \<Rightarrow> json list \<Rightarrow> error + json list" where
  "formatted_jobs P [] = Inr []"
| "formatted_jobs P (job # rest) =
     (case formatted_job P job of
        Inl e \<Rightarrow> Inl e
      | Inr fj \<Rightarrow>
          (case formatted_jobs P rest of Inl e \<Rightarrow> Inl e | Inr fjs \<Rightarrow> Inr (fj # fjs)))"

definition search_jobs_try :: "runtime \<Rightarrow> obj \<Rightarrow> error + JobSearchResponse" where
  \<comment> \<open>the body of the \<^verbatim>\<open>try\<close> block, after the call of \<^verbatim>\<open>jobs_api.search_jobs\<close>\<close>
  "search_jobs_try rt results =
     (if truthy (dict_get results (ustr ''error''))
      then JobSearchResponse_init rt False (JInt 0) [] (dict_get results (ustr ''error''))
      else if ne_zero (dict_get results (ustr ''code''))
      then JobSearchResponse_init rt False (JInt 0) []
             (dict_get_default results (ustr ''message'') (JStr (ustr ''API error'')))
      else
     (case py_get (dict_get_default results (ustr ''data'') (JObj [])) (ustr ''job_post_list'') (JList []) of
        Inl e \<Rightarrow> Inl e
      | Inr job_posts \<Rightarrow>
     (case py_len job_posts of
        Inl e \<Rightarrow> Inl e
      | Inr n \<Rightarrow>
     (case py_get (dict_get_default results (ustr ''data'') (JObj [])) (ustr ''count'') (JInt (int n)) of
        Inl e \<Rightarrow> Inl e
      | Inr count \<Rightarrow>
     (case py_iter job_posts of
        Inl e \<Rightarrow> Inl e
      | Inr posts \<Rightarrow>
     (case formatted_jobs (isprintable rt) posts of
        Inl e \<Rightarrow> Inl e
      | Inr fjs \<Rightarrow> JobSearchResponse_init rt True count fjs JNull))))))"

definition search_jobs_internal :: "runtime \<Rightarrow> obj \<Rightarrow> error + JobSearchResponse" where
  \<comment> \<open>\<^verbatim>\<open>except Exception as e: raise HTTPException(status_code=500, ...)\<close>\<close>
  "search_jobs_internal rt results =
     (case search_jobs_try rt results of Inl e \<Rightarrow> Inl HTTPException | Inr r \<Rightarrow> Inr r)"

section \<open>Failures, the specification's location rule, runtimes for examples\<close>

text \<open>
  The source marks its failure messages with a cross mark; these are the outcomes that
  the specification calls \<open>Failure\<close>.
\<close>

fun failure_line :: "line \<Rightarrow> bool" where
  "failure_line (ErrorLine t) = True"
| "failure_line (ApiErrorLine t) = True"
| "failure_line NoDataKeyLine = True"
| "failure_line NoJobListKeyLine = True"
| "failure_line l = False"

fun failure_report :: "report \<Rightarrow> bool" where
  "failure_report (ErrorReport t) = True"
| "failure_report (ApiErrorReport t) = True"
| "failure_report NoJobDataReport = True"
| "failure_report r = False"

definition job_lines ::
    "(nat \<Rightarrow> bool) \<Rightarrow> nat \<Rightarrow> obj \<Rightarrow> pystr \<Rightarrow> pystr \<Rightarrow> pystr \<Rightarrow> line list" where
  \<comment> \<open>The lines of job number \<open>i\<close> when its location string is \<open>ls\<close> and its description
      and requirement are the strings \<open>d\<close> and \<open>r\<close>, each empty when the field is absent:
      what the theorems below compare the two loops with.\<close>
  "job_lines P i j ls d r =
     [TitleLine i (py_str P (dict_get_default j (ustr ''title'') (JStr (ustr ''N/A'')))),
      JobCodeLine (py_str P (dict_get_default j (ustr ''code'') (JStr (ustr ''N/A'')))),
      LocationLine ls,
      TypeLine (py_str P (dict_get_default j (ustr ''recruit_type'') (JStr (ustr ''N/A'')))),
      UrlLine (ustr ''https://xiaomi.jobs.f.mioffice.cn/index/position/''
               @ py_str P (dict_get_default j (ustr ''id'') (JStr [])) @ ustr ''/detail'')]
     @ (if d = [] then [] else [DescriptionLine (preview 150 (clean_text d))])
     @ (if r = [] then [] else [RequirementsLine (preview 100 (clean_text r))])"

definition locations_spec :: "(nat \<Rightarrow> bool) \<Rightarrow> obj \<Rightarrow> json list option" where
  \<comment> \<open>The location rule in the words of the specification, which goes by the presence of
      the two keys; \<open>None\<close> where those words say nothing (a \<^verbatim>\<open>city_list\<close> that is not a
      sequence).\<close>
  "locations_spec P job =
     (case map_of job (ustr ''city_info'') of
        Some city_info \<Rightarrow> Some [single_location P city_info]
      | None \<Rightarrow>
          (case map_of job (ustr ''city_list'') of
             Some (JList cities) \<Rightarrow> Some (map (single_location P) cities)
           | Some v \<Rightarrow> None
           | None \<Rightarrow> Some []))"

definition latin1_table :: "nat \<Rightarrow> bool" where
  \<comment> \<open>The printable code points from 128 to 255, and none above: the table with which the
      examples below are evaluated. The theorems hold for every table.\<close>
  "latin1_table c = ((161 \<le> c \<and> c \<le> 172) \<or> (174 \<le> c \<and> c \<le> 255))"

definition utf8_encodes :: "nat \<Rightarrow> bool" where
  \<comment> \<open>UTF-8 with the error handler \<^verbatim>\<open>strict\<close>: every code point but the surrogates\<close>
  "utf8_encodes c = (c < 55296 \<or> (57343 < c \<and> c < 1114112))"

definition ascii_encodes :: "nat \<Rightarrow> bool" where
  "ascii_encodes c = (c < 128)"

definition no_coercion_int :: "json \<Rightarrow> int option" where
  "no_coercion_int v = None"

definition no_coercion_str :: "json \<Rightarrow> pystr option option" where
  "no_coercion_str v = None"

definition str_coercion :: "json \<Rightarrow> pystr option option" where
  "str_coercion v = Some (Some (py_str latin1_table v))"

definition utf8_runtime :: runtime where
  \<comment> \<open>a UTF-8 terminal and a pydantic that coerces nothing\<close>
  "utf8_runtime =
     \<lparr>isprintable = latin1_table, stdout_encodes = utf8_encodes,
      coerce_int = no_coercion_int, coerce_str = no_coercion_str\<rparr>"

definition ascii_runtime :: runtime where
  \<comment> \<open>an ASCII terminal and a pydantic that turns a message into its string\<close>
  "ascii_runtime =
     \<lparr>isprintable = latin1_table, stdout_encodes = ascii_encodes,
      coerce_int = no_coercion_int, coerce_str = str_coercion\<rparr>"

section \<open>Properties\<close>

subsection \<open>String literals\<close>

lemma ustr_eq_iff [simp]: "ustr a = ustr b \<longleftrightarrow> a = b"
  by (simp add: ustr_def inj_map_eq_map inj_of_char)

lemma ustr_Nil [simp]: "ustr [] = []"
  by (simp add: ustr_def)

lemma ustr_eq_Nil [simp]: "ustr s = [] \<longleftrightarrow> s = []"
  by (simp add: ustr_def)

lemma length_ustr [simp]: "length (ustr s) = length s"
  by (simp add: ustr_def)

lemma ustr_append: "ustr a @ ustr b = ustr (a @ b)"
  by (simp add: ustr_def)

subsection \<open>Runs of \<^verbatim>\<open>print\<close>\<close>

lemma and_then_Some [simp]: "and_then (out, Some e) b = (out, Some e)"
  by (simp add: and_then_def)

lemma and_then_None [simp]: "and_then (out, None) (out', r) = (out @ out', r)"
  by (simp add: and_then_def)

lemma and_then_Nil [simp]: "and_then ([], None) b = b"
  by (cases b) simp

lemma and_then_Nil_right [simp]: "and_then a ([], None) = a"
  by (simp add: and_then_def split: prod.splits option.splits)

lemma print_lines_append:
  "and_then (print_lines E a) (print_lines E b) = print_lines E (a @ b)"
proof (induction a)
  case Nil
  show ?case by simp
next
  case (Cons l a)
  show ?case
  proof (cases "encodable E l")
    case False
    then show ?thesis by simp
  next
    case True
    obtain out r where a: "print_lines E a = (out, r)"
      by (cases "print_lines E a")
    obtain out' r' where b: "print_lines E b = (out', r')"
      by (cases "print_lines E b")
    have ih: "print_lines E (a @ b) = and_then (out, r) (out', r')"
      using Cons.IH a b by simp
    show ?thesis
      by (cases r) (simp_all add: True a b ih)
  qed
qed

subsection \<open>What UTF-8 encodes\<close>

lemma utf8_encodes_ustr [simp]: "list_all utf8_encodes (ustr s)"
  by (simp add: ustr_def list_all_iff utf8_encodes_def order_less_trans [OF nat_of_char_less_256])

lemma utf8_encodes_str_nat [simp]: "list_all utf8_encodes (str_nat n)"
proof (induction n rule: str_nat.induct)
  case (1 n)
  show ?case
  proof (cases "n < 10")
    case True
    then have "48 + n < 55296" by linarith
    then have "utf8_encodes (48 + n)"
      unfolding utf8_encodes_def by blast
    with True show ?thesis by (subst str_nat.simps) simp
  next
    case False
    have "48 + n mod 10 < 55296"
      using mod_less_divisor [of 10 n] by linarith
    then have "utf8_encodes (48 + n mod 10)"
      unfolding utf8_encodes_def by blast
    with False "1.IH" show ?thesis by (subst str_nat.simps) simp
  qed
qed

lemma utf8_encodes_templates [simp]:
  "utf8_encodes 10060" "utf8_encodes 128203" "utf8_encodes 128237" "utf8_encodes 127380"
  "utf8_encodes 128205" "utf8_encodes 128188" "utf8_encodes 128279" "utf8_encodes 128221"
  "utf8_encodes 39" "utf8_encodes 61"
  by (simp_all add: utf8_encodes_def)

lemma encodable_utf8 [simp]:
  "encodable utf8_encodes (ErrorLine t) = list_all utf8_encodes t"
  "encodable utf8_encodes (ApiErrorLine t) = list_all utf8_encodes t"
  "encodable utf8_encodes NoDataKeyLine"
  "encodable utf8_encodes NoJobListKeyLine"
  "encodable utf8_encodes (FoundLine t n) = list_all utf8_encodes t"
  "encodable utf8_encodes NoPostingsLine"
  "encodable utf8_encodes RuleLine"
  "encodable utf8_encodes (TitleLine i t) = list_all utf8_encodes t"
  "encodable utf8_encodes (JobCodeLine t) = list_all utf8_encodes t"
  "encodable utf8_encodes (LocationLine t) = list_all utf8_encodes t"
  "encodable utf8_encodes (TypeLine t) = list_all utf8_encodes t"
  "encodable utf8_encodes (UrlLine t) = list_all utf8_encodes t"
  "encodable utf8_encodes (DescriptionLine t) = list_all utf8_encodes t"
  "encodable utf8_encodes (RequirementsLine t) = list_all utf8_encodes t"
  "encodable utf8_encodes BlankLine"
  by (simp_all add: encodable_def list_all_iff [of _ "replicate _ _"])

lemma utf8_runtime_fields [simp]:
  "isprintable utf8_runtime = latin1_table"
  "stdout_encodes utf8_runtime = utf8_encodes"
  "coerce_int utf8_runtime = no_coercion_int"
  "coerce_str utf8_runtime = no_coercion_str"
  by (simp_all add: utf8_runtime_def)

lemma ascii_runtime_fields [simp]:
  "isprintable ascii_runtime = latin1_table"
  "stdout_encodes ascii_runtime = ascii_encodes"
  "coerce_int ascii_runtime = no_coercion_int"
  "coerce_str ascii_runtime = str_coercion"
  by (simp_all add: ascii_runtime_def)

lemma str_int_digit:
  "str_int 0 = ustr ''0''" "str_int 1 = ustr ''1''" "str_int 2 = ustr ''2''"
  "str_int 3 = ustr ''3''" "str_int 7 = ustr ''7''"
  by (simp_all add: str_int_def str_nat.simps ustr_def)

subsection \<open>Behind the two gates\<close>

text \<open>
  Once the error marker is falsy and \<^verbatim>\<open>code\<close> equals 0, what the three functions do is
  decided by \<^verbatim>\<open>data\<close> alone.
\<close>

lemma print_job_results_object:
  assumes "\<not> truthy (dict_get data (ustr ''error''))"
    and "\<not> ne_zero (dict_get data (ustr ''code''))"
    and "map_of data (ustr ''data'') = Some (JObj ds)"
    and "map_of ds (ustr ''job_post_list'') = Some (JList posts)"
  shows "print_job_results rt data =
     and_then
       (print_lines (stdout_encodes rt)
          [FoundLine (py_str (isprintable rt)
                        (dict_get_default ds (ustr ''count'') (JInt (int (length posts)))))
                     (length posts)])
       (if posts = [] then print_lines (stdout_encodes rt) [NoPostingsLine]
        else and_then (print_lines (stdout_encodes rt) [RuleLine])
               (print_jobs (stdout_encodes rt) (isprintable rt) 1 posts))"
  using assms by (simp add: print_job_results_def dict_get_def)

lemma format_job_results_object:
  assumes "\<not> truthy (dict_get data (ustr ''error''))"
    and "\<not> ne_zero (dict_get data (ustr ''code''))"
    and "map_of data (ustr ''data'') = Some (JObj ds)"
    and "map_of ds (ustr ''job_post_list'') = Some (JList posts)"
  shows "format_job_results rt data =
     (if posts = []
      then Inr (NoPostingsReport (py_str (isprintable rt)
                  (dict_get_default ds (ustr ''count'') (JInt (int (length posts))))))
      else (case format_jobs (isprintable rt) 1 posts of
              Inl e \<Rightarrow> Inl e
            | Inr blocks \<Rightarrow>
                Inr (ResultsReport
                       (py_str (isprintable rt)
                          (dict_get_default ds (ustr ''count'') (JInt (int (length posts)))))
                       (length posts) blocks)))"
  using assms by (simp add: format_job_results_def dict_get_def)

lemma search_jobs_internal_object:
  assumes "\<not> truthy (dict_get data (ustr ''error''))"
    and "\<not> ne_zero (dict_get data (ustr ''code''))"
    and "map_of data (ustr ''data'') = Some (JObj ds)"
    and "map_of ds (ustr ''job_post_list'') = Some (JList posts)"
  shows "search_jobs_internal rt data =
     (case formatted_jobs (isprintable rt) posts of
        Inl e \<Rightarrow> Inl HTTPException
      | Inr fjs \<Rightarrow>
          (case validate_total_count rt
                  (dict_get_default ds (ustr ''count'') (JInt (int (length posts)))) of
             None \<Rightarrow> Inl HTTPException
           | Some c \<Rightarrow> Inr \<lparr>success = True, total_count = c, jobs = fjs, message = None\<rparr>))"
proof -
  have d: "dict_get_default data (ustr ''data'') (JObj []) = JObj ds"
    using assms(3) by (simp add: dict_get_default_def)
  have j: "dict_get_default ds (ustr ''job_post_list'') (JList []) = JList posts"
    using assms(4) by (simp add: dict_get_default_def)
  show ?thesis
    using assms(1,2)
    by (simp add: search_jobs_internal_def search_jobs_try_def JobSearchResponse_init_def
        validate_message_def d j split: sum.splits option.splits)
qed

lemma search_jobs_internal_failure:
  "search_jobs_internal rt data =
     (case validate_message rt m of
        None \<Rightarrow> Inl HTTPException
      | Some msg \<Rightarrow> Inr \<lparr>success = False, total_count = 0, jobs = [], message = msg\<rparr>)"
  if "truthy (dict_get data (ustr ''error'')) \<and> m = dict_get data (ustr ''error'')
      \<or> \<not> truthy (dict_get data (ustr ''error'')) \<and> ne_zero (dict_get data (ustr ''code''))
        \<and> m = dict_get_default data (ustr ''message'') (JStr (ustr ''API error''))"
  using that
  by (auto simp: search_jobs_internal_def search_jobs_try_def JobSearchResponse_init_def
      validate_total_count_def split: option.splits)

subsection \<open>The lines of one job\<close>

lemma preview_law:
  "(length c \<le> b \<longrightarrow> preview b c = c)
   \<and> (b < length c \<longrightarrow> preview b c = take b c @ ustr ''...'')
   \<and> (preview b c = take b c @ ustr ''...'' \<longleftrightarrow> b < length c)
   \<and> length (preview b c) \<le> b + 3"
  by (auto simp: preview_def)

lemma text_preview_string:
  "text_preview b (JStr t) = Inr (if t = [] then None else Some (preview b (clean_text t)))"
  by (simp add: text_preview_def)

lemma field_string_or_absent:
  assumes "dict_get_default j k (JStr []) = JStr t"
  shows "text_preview b (dict_get j k) = Inr (if t = [] then None else Some (preview b (clean_text t)))"
  using assms
  by (auto simp: dict_get_default_def dict_get_def text_preview_def split: option.splits)

lemma format_job_exact:
  assumes "extract_locations P j = Inr locs" and "location_str locs = Inr ls"
    and "dict_get_default j (ustr ''description'') (JStr []) = JStr d"
    and "dict_get_default j (ustr ''requirement'') (JStr []) = JStr r"
  shows "format_job P i (JObj j) = Inr (job_lines P i j ls d r)"
  using assms(1,2)
  by (simp add: format_job_def field_string_or_absent [OF assms(3)]
      field_string_or_absent [OF assms(4)] job_lines_def detail_url_def opt_line_def)

lemma print_job_exact:
  assumes "extract_locations P j = Inr locs" and "location_str locs = Inr ls"
    and "dict_get_default j (ustr ''description'') (JStr []) = JStr d"
    and "dict_get_default j (ustr ''requirement'') (JStr []) = JStr r"
  shows "print_job E P i (JObj j) = print_lines E (job_lines P i j ls d r @ [BlankLine])"
proof -
  let ?a = "[TitleLine i (py_str P (dict_get_default j (ustr ''title'') (JStr (ustr ''N/A'')))),
             JobCodeLine (py_str P (dict_get_default j (ustr ''code'') (JStr (ustr ''N/A''))))]"
  let ?b = "[LocationLine ls,
             TypeLine (py_str P (dict_get_default j (ustr ''recruit_type'') (JStr (ustr ''N/A'')))),
             UrlLine (detail_url P j)]"
  let ?c = "opt_line DescriptionLine (if d = [] then None else Some (preview 150 (clean_text d)))"
  let ?d = "opt_line RequirementsLine (if r = [] then None else Some (preview 100 (clean_text r)))
            @ [BlankLine]"
  have "print_job E P i (JObj j) =
      and_then (print_lines E ?a)
        (and_then (print_lines E ?b) (and_then (print_lines E ?c) (print_lines E ?d)))"
    using assms by (simp add: print_job_def text_preview_string)
  also have "\<dots> = print_lines E (?a @ ?b @ ?c @ ?d)"
    by (simp only: print_lines_append)
  also have "?a @ ?b @ ?c @ ?d = job_lines P i j ls d r @ [BlankLine]"
    by (simp add: job_lines_def detail_url_def opt_line_def)
  finally show ?thesis .
qed

lemma clean_text_replicate:
  "\<not> py_isspace c \<Longrightarrow> c \<noteq> 10 \<Longrightarrow> c \<noteq> 13 \<Longrightarrow> clean_text (replicate n c) = replicate n c"
  by (simp add: clean_text_def py_strip_def py_replace_def)

subsection \<open>A job at any place in the list\<close>

lemma and_then_assoc: "and_then (and_then a b) c = and_then a (and_then b c)"
  by (simp add: and_then_def split: prod.splits option.splits)

lemma print_jobs_append:
  "print_jobs E P i (a @ b) = and_then (print_jobs E P i a) (print_jobs E P (i + length a) b)"
  by (induction a arbitrary: i) (simp_all add: and_then_assoc)

lemma format_jobs_append:
  "format_jobs P i (a @ b) =
     (case format_jobs P i a of
        Inl e \<Rightarrow> Inl e
      | Inr x \<Rightarrow>
          (case format_jobs P (i + length a) b of Inl e \<Rightarrow> Inl e | Inr y \<Rightarrow> Inr (x @ y)))"
  by (induction a arbitrary: i) (simp_all split: sum.splits)

lemma job_in_document:
  assumes "\<not> truthy (dict_get data (ustr ''error''))"
    and "\<not> ne_zero (dict_get data (ustr ''code''))"
    and "map_of data (ustr ''data'') = Some (JObj ds)"
    and "map_of ds (ustr ''job_post_list'') = Some (JList (pre @ JObj j # rest))"
    and "extract_locations (isprintable rt) j = Inr locs" and "location_str locs = Inr ls"
    and "dict_get_default j (ustr ''description'') (JStr []) = JStr d"
    and "dict_get_default j (ustr ''requirement'') (JStr []) = JStr r"
    and "n = Suc (length pre + length rest)"
    and "tc = py_str (isprintable rt) (dict_get_default ds (ustr ''count'') (JInt (int n)))"
  shows "print_job_results rt data =
           and_then (print_lines (stdout_encodes rt) [FoundLine tc n, RuleLine])
             (and_then (print_jobs (stdout_encodes rt) (isprintable rt) 1 pre)
                (and_then
                   (print_lines (stdout_encodes rt)
                      (job_lines (isprintable rt) (Suc (length pre)) j ls d r @ [BlankLine]))
                   (print_jobs (stdout_encodes rt) (isprintable rt) (Suc (Suc (length pre))) rest)))"
    and "format_job_results rt data =
           (case format_jobs (isprintable rt) 1 pre of
              Inl e \<Rightarrow> Inl e
            | Inr bs \<Rightarrow>
                (case format_jobs (isprintable rt) (Suc (Suc (length pre))) rest of
                   Inl e \<Rightarrow> Inl e
                 | Inr bs' \<Rightarrow>
                     Inr (ResultsReport tc n
                            (bs @ job_lines (isprintable rt) (Suc (length pre)) j ls d r # bs'))))"
proof -
  let ?E = "stdout_encodes rt" and ?P = "isprintable rt"
  let ?posts = "pre @ JObj j # rest"
  have n: "length ?posts = n"
    using assms(9) by simp
  have pj: "print_job ?E ?P (Suc (length pre)) (JObj j)
      = print_lines ?E (job_lines ?P (Suc (length pre)) j ls d r @ [BlankLine])"
    by (rule print_job_exact [OF assms(5-8)])
  have fj: "format_job ?P (Suc (length pre)) (JObj j)
      = Inr (job_lines ?P (Suc (length pre)) j ls d r)"
    by (rule format_job_exact [OF assms(5-8)])
  have pjs: "print_jobs ?E ?P (Suc 0) ?posts =
      and_then (print_jobs ?E ?P (Suc 0) pre)
        (and_then (print_lines ?E (job_lines ?P (Suc (length pre)) j ls d r @ [BlankLine]))
           (print_jobs ?E ?P (Suc (Suc (length pre))) rest))"
    by (simp add: print_jobs_append pj del: print_lines.simps)
  have "print_job_results rt data =
      and_then (print_lines ?E [FoundLine tc n])
        (and_then (print_lines ?E [RuleLine]) (print_jobs ?E ?P (Suc 0) ?posts))"
    using n assms(10)
    by (simp add: print_job_results_object [OF assms(1-4)] del: print_lines.simps)
  also have "\<dots> =
      and_then (and_then (print_lines ?E [FoundLine tc n]) (print_lines ?E [RuleLine]))
        (print_jobs ?E ?P (Suc 0) ?posts)"
    by (simp only: and_then_assoc)
  also have "and_then (print_lines ?E [FoundLine tc n]) (print_lines ?E [RuleLine])
      = print_lines ?E [FoundLine tc n, RuleLine]"
    by (simp only: print_lines_append append.simps)
  finally show "print_job_results rt data =
           and_then (print_lines ?E [FoundLine tc n, RuleLine])
             (and_then (print_jobs ?E ?P 1 pre)
                (and_then
                   (print_lines ?E (job_lines ?P (Suc (length pre)) j ls d r @ [BlankLine]))
                   (print_jobs ?E ?P (Suc (Suc (length pre))) rest)))"
    by (simp only: pjs One_nat_def)
  have fjs: "format_jobs ?P (Suc 0) ?posts =
      (case format_jobs ?P (Suc 0) pre of
         Inl e \<Rightarrow> Inl e
       | Inr bs \<Rightarrow>
           (case format_jobs ?P (Suc (Suc (length pre))) rest of
              Inl e \<Rightarrow> Inl e
            | Inr bs' \<Rightarrow> Inr (bs @ job_lines ?P (Suc (length pre)) j ls d r # bs')))"
    by (simp add: format_jobs_append fj split: sum.splits)
  show "format_job_results rt data =
           (case format_jobs ?P 1 pre of
              Inl e \<Rightarrow> Inl e
            | Inr bs \<Rightarrow>
                (case format_jobs ?P (Suc (Suc (length pre))) rest of
                   Inl e \<Rightarrow> Inl e
                 | Inr bs' \<Rightarrow>
                     Inr (ResultsReport tc n
                            (bs @ job_lines ?P (Suc (length pre)) j ls d r # bs'))))"
    using n assms(10)
    by (simp add: format_job_results_object [OF assms(1-4)] fjs split: sum.splits)
qed

lemma job_lines_places:
  "length (job_lines P i j ls d r) = 5 + (if d = [] then 0 else 1) + (if r = [] then 0 else 1)"
  "job_lines P i j ls d r ! 4 = UrlLine (detail_url P j)"
  "d \<noteq> [] \<Longrightarrow> job_lines P i j ls d r ! 5 = DescriptionLine (preview 150 (clean_text d))"
  "r \<noteq> [] \<Longrightarrow> last (job_lines P i j ls d r) = RequirementsLine (preview 100 (clean_text r))"
  "d = [] \<Longrightarrow> DescriptionLine t \<notin> set (job_lines P i j ls d r)"
  "r = [] \<Longrightarrow> RequirementsLine t \<notin> set (job_lines P i j ls d r)"
  by (simp_all add: job_lines_def detail_url_def)

lemma list_all_replicate [simp]: "list_all Q (replicate n x) = (n = 0 \<or> Q x)"
  by (auto simp: list_all_iff)

lemma no_surrogate_ustr [simp]: "\<not> list_ex is_surrogate (ustr s)"
proof -
  have "\<not> is_surrogate (of_char c)" for c :: char
  proof -
    have "of_char c < (55296 :: nat)"
      using nat_of_char_less_256 [of c] by linarith
    then show ?thesis
      unfolding is_surrogate_def by linarith
  qed
  then show ?thesis
    by (simp add: ustr_def list_ex_iff)
qed

lemma failure_texts_differ: "line_text NoDataKeyLine \<noteq> line_text NoJobListKeyLine"
proof
  assume "line_text NoDataKeyLine = line_text NoJobListKeyLine"
  then have "length (line_text NoDataKeyLine) = length (line_text NoJobListKeyLine)"
    by (rule arg_cong)
  then show False by simp
qed

subsection \<open>Missing \<^verbatim>\<open>data\<close> and missing \<^verbatim>\<open>job_post_list\<close>\<close>

text \<open>
  Claim C1, as the code has it. For every raw response \<^verbatim>\<open>print_job_results\<close> and
  \<^verbatim>\<open>format_job_results\<close> go through the same four tests in the same order. If the error
  marker is truthy, both report the transport error. Otherwise, if \<^verbatim>\<open>code\<close> differs
  from 0, both report the API error. Otherwise, if \<^verbatim>\<open>data\<close> is absent,
  \<^verbatim>\<open>print_job_results\<close> prints the message that names the missing \<^verbatim>\<open>data\<close> key and
  \<^verbatim>\<open>format_job_results\<close> returns the message that no job data was found. Otherwise, if
  the test \<^verbatim>\<open>"job_post_list" in data\<close> is false, as it is for an object without that
  key, \<^verbatim>\<open>print_job_results\<close> prints the message that names the missing
  \<^verbatim>\<open>job_post_list\<close> key and \<^verbatim>\<open>format_job_results\<close> returns the same message as before.
  All of these are failures. The two messages of \<^verbatim>\<open>print_job_results\<close> are distinct;
  \<^verbatim>\<open>format_job_results\<close> has one message for both conditions. When the test raises, as
  it does for a \<^verbatim>\<open>data\<close> that is \<^verbatim>\<open>null\<close>, a number or a boolean, both functions raise
  and report nothing. A message that \<^verbatim>\<open>print_job_results\<close> prints is printed when
  stdout can encode it; when it cannot, the \<^verbatim>\<open>print\<close> raises \<^verbatim>\<open>UnicodeEncodeError\<close>
  and nothing is printed.
\<close>

theorem missing_keys_reported:
  "(truthy (dict_get data (ustr ''error'')) \<longrightarrow>
      print_job_results rt data
        = print_lines (stdout_encodes rt)
            [ErrorLine (py_str (isprintable rt) (dict_get data (ustr ''error'')))]
    \<and> format_job_results rt data
        = Inr (ErrorReport (py_str (isprintable rt) (dict_get data (ustr ''error'')))))
   \<and> (\<not> truthy (dict_get data (ustr ''error'')) \<and> ne_zero (dict_get data (ustr ''code'')) \<longrightarrow>
      print_job_results rt data
        = print_lines (stdout_encodes rt)
            [ApiErrorLine (py_str (isprintable rt)
               (dict_get_default data (ustr ''message'') (JStr (ustr ''Unknown error''))))]
    \<and> format_job_results rt data
        = Inr (ApiErrorReport (py_str (isprintable rt)
                 (dict_get_default data (ustr ''message'') (JStr (ustr ''Unknown error''))))))
   \<and> (\<not> truthy (dict_get data (ustr ''error'')) \<and> \<not> ne_zero (dict_get data (ustr ''code''))
        \<and> map_of data (ustr ''data'') = None \<longrightarrow>
      print_job_results rt data = print_lines (stdout_encodes rt) [NoDataKeyLine]
    \<and> format_job_results rt data = Inr NoJobDataReport)
   \<and> (\<forall>v. \<not> truthy (dict_get data (ustr ''error'')) \<and> \<not> ne_zero (dict_get data (ustr ''code''))
        \<and> map_of data (ustr ''data'') = Some v
        \<and> py_contains v (ustr ''job_post_list'') = Inr False \<longrightarrow>
      print_job_results rt data = print_lines (stdout_encodes rt) [NoJobListKeyLine]
    \<and> format_job_results rt data = Inr NoJobDataReport)
   \<and> (\<forall>v e. \<not> truthy (dict_get data (ustr ''error'')) \<and> \<not> ne_zero (dict_get data (ustr ''code''))
        \<and> map_of data (ustr ''data'') = Some v
        \<and> py_contains v (ustr ''job_post_list'') = Inl e \<longrightarrow>
      print_job_results rt data = ([], Some e)
    \<and> format_job_results rt data = Inl e)
   \<and> (\<forall>ds. map_of ds (ustr ''job_post_list'') = None \<longrightarrow>
         py_contains (JObj ds) (ustr ''job_post_list'') = Inr False)
   \<and> py_contains JNull (ustr ''job_post_list'') = Inl TypeError
   \<and> (\<forall>i. py_contains (JInt i) (ustr ''job_post_list'') = Inl TypeError)
   \<and> (\<forall>b. py_contains (JBool b) (ustr ''job_post_list'') = Inl TypeError)
   \<and> (\<forall>l. print_lines (stdout_encodes rt) [l]
         = (if encodable (stdout_encodes rt) l then ([l], None)
            else ([], Some UnicodeEncodeError)))
   \<and> NoDataKeyLine \<noteq> NoJobListKeyLine
   \<and> line_text NoDataKeyLine \<noteq> line_text NoJobListKeyLine
   \<and> failure_line NoDataKeyLine \<and> failure_line NoJobListKeyLine
   \<and> (\<forall>t. failure_line (ErrorLine t) \<and> failure_line (ApiErrorLine t)
         \<and> failure_report (ErrorReport t) \<and> failure_report (ApiErrorReport t))
   \<and> failure_report NoJobDataReport"
  using failure_texts_differ
  by (simp add: print_job_results_def format_job_results_def)

text \<open>
  The theorem on a UTF-8 terminal, at \<^verbatim>\<open>{"code": 0}\<close>, at
  \<^verbatim>\<open>{"code": 0, "data": {"count": 3}}\<close>, at \<^verbatim>\<open>{"error": "timeout"}\<close>, at
  \<^verbatim>\<open>{"code": 1, "data": {}}\<close> and at \<^verbatim>\<open>{"code": 0, "data": null}\<close>.
\<close>

theorem missing_keys_reported_witness:
  "print_job_results utf8_runtime [(ustr ''code'', JInt 0)] = ([NoDataKeyLine], None)
   \<and> format_job_results utf8_runtime [(ustr ''code'', JInt 0)] = Inr NoJobDataReport
   \<and> print_job_results utf8_runtime
        [(ustr ''code'', JInt 0), (ustr ''data'', JObj [(ustr ''count'', JInt 3)])]
       = ([NoJobListKeyLine], None)
   \<and> format_job_results utf8_runtime
        [(ustr ''code'', JInt 0), (ustr ''data'', JObj [(ustr ''count'', JInt 3)])]
       = Inr NoJobDataReport
   \<and> print_job_results utf8_runtime [(ustr ''error'', JStr (ustr ''timeout''))]
       = ([ErrorLine (ustr ''timeout'')], None)
   \<and> format_job_results utf8_runtime [(ustr ''error'', JStr (ustr ''timeout''))]
       = Inr (ErrorReport (ustr ''timeout''))
   \<and> print_job_results utf8_runtime [(ustr ''code'', JInt 1), (ustr ''data'', JObj [])]
       = ([ApiErrorLine (ustr ''Unknown error'')], None)
   \<and> format_job_results utf8_runtime [(ustr ''code'', JInt 1), (ustr ''data'', JObj [])]
       = Inr (ApiErrorReport (ustr ''Unknown error''))
   \<and> print_job_results utf8_runtime [(ustr ''code'', JInt 0), (ustr ''data'', JNull)]
       = ([], Some TypeError)
   \<and> format_job_results utf8_runtime [(ustr ''code'', JInt 0), (ustr ''data'', JNull)]
       = Inl TypeError"
  using missing_keys_reported [of "[(ustr ''code'', JInt 0)]" utf8_runtime]
    missing_keys_reported [of "[(ustr ''code'', JInt 0), (ustr ''data'', JNull)]" utf8_runtime]
    missing_keys_reported
      [of "[(ustr ''code'', JInt 0), (ustr ''data'', JObj [(ustr ''count'', JInt 3)])]"
          utf8_runtime]
    missing_keys_reported [of "[(ustr ''error'', JStr (ustr ''timeout''))]" utf8_runtime]
    missing_keys_reported [of "[(ustr ''code'', JInt 1), (ustr ''data'', JObj [])]" utf8_runtime]
  by (simp add: dict_get_def dict_get_default_def)

text \<open>
  The claim as the specification words it fails in \<^verbatim>\<open>format_job_results\<close>: the document
  \<^verbatim>\<open>{"code": 0}\<close>, without \<^verbatim>\<open>data\<close>, and the document \<^verbatim>\<open>{"code": 0, "data": {}}\<close>,
  without \<^verbatim>\<open>job_post_list\<close>, get one and the same report.
\<close>

theorem missing_keys_merged_counterexample:
  "format_job_results utf8_runtime [(ustr ''code'', JInt 0)] = Inr NoJobDataReport
   \<and> format_job_results utf8_runtime [(ustr ''code'', JInt 0), (ustr ''data'', JObj [])]
       = Inr NoJobDataReport"
  by (simp add: format_job_results_def dict_get_def)

subsection \<open>The API error gate\<close>

text \<open>
  Claim C2, as the code has it. For every raw response whose error marker is absent or
  falsy and whose \<^verbatim>\<open>code\<close> is not equal to 0: \<^verbatim>\<open>format_job_results\<close> returns the API
  failure carrying \<^verbatim>\<open>str(message)\<close>, which is the message itself when it is a string,
  and the string \<^verbatim>\<open>Unknown error\<close> when \<^verbatim>\<open>message\<close> is absent; \<^verbatim>\<open>print_job_results\<close>
  prints the same failure as its only line when stdout can encode the line, and otherwise
  raises \<^verbatim>\<open>UnicodeEncodeError\<close> and prints nothing; \<^verbatim>\<open>search_jobs_internal\<close> returns
  the response with \<^verbatim>\<open>success\<close> false, a total of 0, no jobs and, as its message, the
  message of the response when that is a string without lone surrogates, and the string
  \<^verbatim>\<open>API error\<close> when \<^verbatim>\<open>message\<close> is absent; for any other message it returns what
  pydantic's validation of \<^verbatim>\<open>Optional[str]\<close> makes of the value, or raises
  \<^verbatim>\<open>HTTPException\<close> when the validation rejects it.
\<close>

theorem api_error_message:
  assumes "\<not> truthy (dict_get data (ustr ''error''))"
    and "ne_zero (dict_get data (ustr ''code''))"
  shows "(\<forall>m. map_of data (ustr ''message'') = Some (JStr m) \<longrightarrow>
            print_job_results rt data
              = (if encodable (stdout_encodes rt) (ApiErrorLine m) then ([ApiErrorLine m], None)
                 else ([], Some UnicodeEncodeError))
          \<and> format_job_results rt data = Inr (ApiErrorReport m)
          \<and> (\<not> list_ex is_surrogate m \<longrightarrow>
               search_jobs_internal rt data
                 = Inr \<lparr>success = False, total_count = 0, jobs = [], message = Some m\<rparr>))
       \<and> (map_of data (ustr ''message'') = None \<longrightarrow>
            print_job_results rt data
              = (if encodable (stdout_encodes rt) (ApiErrorLine (ustr ''Unknown error''))
                 then ([ApiErrorLine (ustr ''Unknown error'')], None)
                 else ([], Some UnicodeEncodeError))
          \<and> format_job_results rt data = Inr (ApiErrorReport (ustr ''Unknown error''))
          \<and> search_jobs_internal rt data
              = Inr \<lparr>success = False, total_count = 0, jobs = [],
                     message = Some (ustr ''API error'')\<rparr>)
       \<and> (\<forall>v. map_of data (ustr ''message'') = Some v \<longrightarrow>
            print_job_results rt data
              = (if encodable (stdout_encodes rt) (ApiErrorLine (py_str (isprintable rt) v))
                 then ([ApiErrorLine (py_str (isprintable rt) v)], None)
                 else ([], Some UnicodeEncodeError))
          \<and> format_job_results rt data = Inr (ApiErrorReport (py_str (isprintable rt) v))
          \<and> search_jobs_internal rt data
              = (case validate_message rt v of
                   None \<Rightarrow> Inl HTTPException
                 | Some msg \<Rightarrow>
                     Inr \<lparr>success = False, total_count = 0, jobs = [], message = msg\<rparr>))"
proof -
  have s: "search_jobs_internal rt data =
     (case validate_message rt (dict_get_default data (ustr ''message'') (JStr (ustr ''API error''))) of
        None \<Rightarrow> Inl HTTPException
      | Some msg \<Rightarrow> Inr \<lparr>success = False, total_count = 0, jobs = [], message = msg\<rparr>)"
    using assms by (intro search_jobs_internal_failure) simp
  show ?thesis
    using assms
    by (simp add: print_job_results_def format_job_results_def s dict_get_default_def
        validate_message_def)
qed

text \<open>
  The theorem on a UTF-8 terminal with a pydantic that coerces nothing, at
  \<^verbatim>\<open>{"code": 500, "message": "busy"}\<close>, at \<^verbatim>\<open>{"code": 500}\<close>, and at
  \<^verbatim>\<open>{"code": 7, "message": "\ud83d"}\<close>, whose message is one lone surrogate (code point
  55357): there \<^verbatim>\<open>print_job_results\<close> raises and prints nothing.
\<close>

theorem api_error_message_witness:
  "print_job_results utf8_runtime [(ustr ''code'', JInt 500), (ustr ''message'', JStr (ustr ''busy''))]
     = ([ApiErrorLine (ustr ''busy'')], None)
   \<and> format_job_results utf8_runtime [(ustr ''code'', JInt 500), (ustr ''message'', JStr (ustr ''busy''))]
     = Inr (ApiErrorReport (ustr ''busy''))
   \<and> search_jobs_internal utf8_runtime [(ustr ''code'', JInt 500), (ustr ''message'', JStr (ustr ''busy''))]
     = Inr \<lparr>success = False, total_count = 0, jobs = [], message = Some (ustr ''busy'')\<rparr>
   \<and> search_jobs_internal utf8_runtime [(ustr ''code'', JInt 500)]
     = Inr \<lparr>success = False, total_count = 0, jobs = [], message = Some (ustr ''API error'')\<rparr>
   \<and> print_job_results utf8_runtime [(ustr ''code'', JInt 7), (ustr ''message'', JStr [55357])]
     = ([], Some UnicodeEncodeError)
   \<and> format_job_results utf8_runtime [(ustr ''code'', JInt 7), (ustr ''message'', JStr [55357])]
     = Inr (ApiErrorReport [55357])
   \<and> search_jobs_internal utf8_runtime [(ustr ''code'', JInt 7), (ustr ''message'', JStr [55357])]
     = Inl HTTPException"
proof -
  have e3: "\<not> truthy (dict_get [(ustr ''code'', JInt 7), (ustr ''message'', JStr [55357])]
                        (ustr ''error''))"
    by (simp add: dict_get_def)
  have c3: "ne_zero (dict_get [(ustr ''code'', JInt 7), (ustr ''message'', JStr [55357])]
                       (ustr ''code''))"
    by (simp add: dict_get_def)
  have e1: "\<not> truthy (dict_get [(ustr ''code'', JInt 500), (ustr ''message'', JStr (ustr ''busy''))]
                        (ustr ''error''))"
    by (simp add: dict_get_def)
  have c1: "ne_zero (dict_get [(ustr ''code'', JInt 500), (ustr ''message'', JStr (ustr ''busy''))]
                       (ustr ''code''))"
    by (simp add: dict_get_def)
  have e2: "\<not> truthy (dict_get [(ustr ''code'', JInt 500)] (ustr ''error''))"
    by (simp add: dict_get_def)
  have c2: "ne_zero (dict_get [(ustr ''code'', JInt 500)] (ustr ''code''))"
    by (simp add: dict_get_def)
  show ?thesis
    using api_error_message [OF e1 c1, of utf8_runtime] api_error_message [OF e2 c2, of utf8_runtime]
      api_error_message [OF e3 c3, of utf8_runtime]
    by (simp add: utf8_encodes_def validate_message_def is_surrogate_def no_coercion_str_def)
qed

text \<open>
  With the default the specification names, the claim fails at \<^verbatim>\<open>{"code": 500}\<close>: two
  of the three functions report \<^verbatim>\<open>Unknown error\<close>.
\<close>

theorem api_error_default_counterexample:
  "print_job_results utf8_runtime [(ustr ''code'', JInt 500)]
     = ([ApiErrorLine (ustr ''Unknown error'')], None)
   \<and> format_job_results utf8_runtime [(ustr ''code'', JInt 500)]
     = Inr (ApiErrorReport (ustr ''Unknown error''))
   \<and> ustr ''Unknown error'' \<noteq> ustr ''API error''"
  by (simp add: print_job_results_def format_job_results_def dict_get_def dict_get_default_def)

text \<open>
  Claim C10, as the code has it. For every document whose error marker is absent or falsy
  and that has no \<^verbatim>\<open>code\<close> key, each of the three functions takes the API error branch,
  since the missing key reads as \<^verbatim>\<open>None\<close>, which differs from 0, and never looks at
  \<^verbatim>\<open>data\<close>. \<^verbatim>\<open>format_job_results\<close> returns the API failure, with \<^verbatim>\<open>str(message)\<close>, or
  \<^verbatim>\<open>Unknown error\<close> for a missing message. \<^verbatim>\<open>print_job_results\<close> prints that failure
  as its only line when stdout can encode the line, and otherwise raises
  \<^verbatim>\<open>UnicodeEncodeError\<close> and prints nothing. \<^verbatim>\<open>search_jobs_internal\<close> returns the
  response with \<^verbatim>\<open>success\<close> false and the message (\<^verbatim>\<open>API error\<close> when it is missing)
  when pydantic accepts the message as \<^verbatim>\<open>Optional[str]\<close>, as it does for a missing
  message and for a string without lone surrogates, and raises \<^verbatim>\<open>HTTPException\<close> when
  pydantic rejects it. None of the three yields a success for such a document.
\<close>

theorem missing_code_is_api_error:
  assumes "\<not> truthy (dict_get data (ustr ''error''))"
    and "map_of data (ustr ''code'') = None"
    and "mt = py_str (isprintable rt)
                (dict_get_default data (ustr ''message'') (JStr (ustr ''Unknown error'')))"
  shows "print_job_results rt data
           = (if encodable (stdout_encodes rt) (ApiErrorLine mt) then ([ApiErrorLine mt], None)
              else ([], Some UnicodeEncodeError))
       \<and> format_job_results rt data = Inr (ApiErrorReport mt)
       \<and> search_jobs_internal rt data
           = (case validate_message rt
                     (dict_get_default data (ustr ''message'') (JStr (ustr ''API error''))) of
                None \<Rightarrow> Inl HTTPException
              | Some msg \<Rightarrow> Inr \<lparr>success = False, total_count = 0, jobs = [], message = msg\<rparr>)
       \<and> (map_of data (ustr ''message'') = None \<longrightarrow>
            search_jobs_internal rt data
              = Inr \<lparr>success = False, total_count = 0, jobs = [],
                     message = Some (ustr ''API error'')\<rparr>)
       \<and> (\<forall>m. map_of data (ustr ''message'') = Some (JStr m) \<and> \<not> list_ex is_surrogate m \<longrightarrow>
            search_jobs_internal rt data
              = Inr \<lparr>success = False, total_count = 0, jobs = [], message = Some m\<rparr>)
       \<and> (\<forall>r. search_jobs_internal rt data = Inr r \<longrightarrow> success r = False)
       \<and> failure_line (ApiErrorLine mt) \<and> failure_report (ApiErrorReport mt)"
proof -
  have n: "ne_zero (dict_get data (ustr ''code''))"
    using assms(2) by (simp add: dict_get_def)
  have s: "search_jobs_internal rt data =
     (case validate_message rt (dict_get_default data (ustr ''message'') (JStr (ustr ''API error''))) of
        None \<Rightarrow> Inl HTTPException
      | Some msg \<Rightarrow> Inr \<lparr>success = False, total_count = 0, jobs = [], message = msg\<rparr>)"
    using assms(1) n by (intro search_jobs_internal_failure) simp
  show ?thesis
    using assms(1,3) n
    by (auto simp: print_job_results_def format_job_results_def s dict_get_default_def
        validate_message_def split: option.splits)
qed

text \<open>
  The theorem on a UTF-8 terminal, at
  \<^verbatim>\<open>{"data": {"count": 1, "job_post_list": [{"id": "9"}]}}\<close>.
\<close>

theorem missing_code_is_api_error_witness:
  "print_job_results utf8_runtime
      [(ustr ''data'', JObj [(ustr ''count'', JInt 1),
                             (ustr ''job_post_list'', JList [JObj [(ustr ''id'', JStr (ustr ''9''))]])])]
     = ([ApiErrorLine (ustr ''Unknown error'')], None)
   \<and> format_job_results utf8_runtime
      [(ustr ''data'', JObj [(ustr ''count'', JInt 1),
                             (ustr ''job_post_list'', JList [JObj [(ustr ''id'', JStr (ustr ''9''))]])])]
     = Inr (ApiErrorReport (ustr ''Unknown error''))
   \<and> search_jobs_internal utf8_runtime
      [(ustr ''data'', JObj [(ustr ''count'', JInt 1),
                             (ustr ''job_post_list'', JList [JObj [(ustr ''id'', JStr (ustr ''9''))]])])]
     = Inr \<lparr>success = False, total_count = 0, jobs = [], message = Some (ustr ''API error'')\<rparr>"
proof -
  let ?data = "[(ustr ''data'', JObj [(ustr ''count'', JInt 1),
                  (ustr ''job_post_list'', JList [JObj [(ustr ''id'', JStr (ustr ''9''))]])])]"
  have e: "\<not> truthy (dict_get ?data (ustr ''error''))"
    by (simp add: dict_get_def)
  have c: "map_of ?data (ustr ''code'') = None"
    by simp
  have t: "ustr ''Unknown error''
      = py_str (isprintable utf8_runtime)
          (dict_get_default ?data (ustr ''message'') (JStr (ustr ''Unknown error'')))"
    by (simp add: dict_get_default_def)
  show ?thesis
    using missing_code_is_api_error [OF e c t]
    by (simp add: dict_get_default_def validate_message_def)
qed

text \<open>
  As the specification words it the claim fails, on a UTF-8 terminal with a pydantic that
  coerces nothing. At \<^verbatim>\<open>{"message": "\ud83d", "data": {"job_post_list": []}}\<close>, where the
  message is one lone surrogate (code point 55357), \<^verbatim>\<open>print_job_results\<close> returns no
  failure, it raises. At \<^verbatim>\<open>{"message": 404, "data": {"job_post_list": []}}\<close>
  \<^verbatim>\<open>search_jobs_internal\<close> returns no failure response, it raises.
\<close>

theorem missing_code_raises_counterexample:
  "print_job_results utf8_runtime
      [(ustr ''message'', JStr [55357]),
       (ustr ''data'', JObj [(ustr ''job_post_list'', JList [])])]
     = ([], Some UnicodeEncodeError)
   \<and> search_jobs_internal utf8_runtime
      [(ustr ''message'', JInt 404),
       (ustr ''data'', JObj [(ustr ''job_post_list'', JList [])])]
     = Inl HTTPException"
  by (simp add: print_job_results_def dict_get_def dict_get_default_def utf8_encodes_def
      search_jobs_internal_def search_jobs_try_def JobSearchResponse_init_def
      validate_total_count_def validate_message_def no_coercion_str_def)

subsection \<open>Documents without \<^verbatim>\<open>data\<close>\<close>

text \<open>
  Claim C8, as the code has it. For every document without the \<^verbatim>\<open>data\<close> key,
  \<^verbatim>\<open>format_job_results\<close> returns a failure and raises nothing: the transport error if
  the marker is truthy, else the API error if \<^verbatim>\<open>code\<close> differs from 0, else the message
  that no job data was found. \<^verbatim>\<open>print_job_results\<close> makes exactly one \<^verbatim>\<open>print\<close>, of the
  failure line of the same case: when stdout can encode the line, the line is printed and
  the function ends without an exception; when it cannot, the \<^verbatim>\<open>print\<close> raises
  \<^verbatim>\<open>UnicodeEncodeError\<close> and nothing is printed. No access to a field raises on this
  path.
\<close>

theorem missing_data_is_failure:
  assumes "map_of data (ustr ''data'') = None"
    and "fl = (if truthy (dict_get data (ustr ''error''))
               then ErrorLine (py_str (isprintable rt) (dict_get data (ustr ''error'')))
               else if ne_zero (dict_get data (ustr ''code''))
               then ApiErrorLine (py_str (isprintable rt)
                      (dict_get_default data (ustr ''message'') (JStr (ustr ''Unknown error''))))
               else NoDataKeyLine)"
    and "fr = (if truthy (dict_get data (ustr ''error''))
               then ErrorReport (py_str (isprintable rt) (dict_get data (ustr ''error'')))
               else if ne_zero (dict_get data (ustr ''code''))
               then ApiErrorReport (py_str (isprintable rt)
                      (dict_get_default data (ustr ''message'') (JStr (ustr ''Unknown error''))))
               else NoJobDataReport)"
  shows "print_job_results rt data
           = (if encodable (stdout_encodes rt) fl then ([fl], None)
              else ([], Some UnicodeEncodeError))
       \<and> failure_line fl
       \<and> format_job_results rt data = Inr fr
       \<and> failure_report fr"
  using assms by (simp add: print_job_results_def format_job_results_def)

text \<open>
  The theorem on a UTF-8 terminal, at \<^verbatim>\<open>{"code": 0, "message": "ok"}\<close>.
\<close>

theorem missing_data_is_failure_witness:
  "print_job_results utf8_runtime [(ustr ''code'', JInt 0), (ustr ''message'', JStr (ustr ''ok''))]
     = ([NoDataKeyLine], None)
   \<and> failure_line NoDataKeyLine
   \<and> format_job_results utf8_runtime [(ustr ''code'', JInt 0), (ustr ''message'', JStr (ustr ''ok''))]
     = Inr NoJobDataReport
   \<and> failure_report NoJobDataReport"
proof -
  let ?data = "[(ustr ''code'', JInt 0), (ustr ''message'', JStr (ustr ''ok''))]"
  have d: "map_of ?data (ustr ''data'') = None"
    by simp
  have l: "NoDataKeyLine = (if truthy (dict_get ?data (ustr ''error''))
               then ErrorLine (py_str (isprintable utf8_runtime) (dict_get ?data (ustr ''error'')))
               else if ne_zero (dict_get ?data (ustr ''code''))
               then ApiErrorLine (py_str (isprintable utf8_runtime)
                      (dict_get_default ?data (ustr ''message'') (JStr (ustr ''Unknown error''))))
               else NoDataKeyLine)"
    by (simp add: dict_get_def)
  have r: "NoJobDataReport = (if truthy (dict_get ?data (ustr ''error''))
               then ErrorReport (py_str (isprintable utf8_runtime) (dict_get ?data (ustr ''error'')))
               else if ne_zero (dict_get ?data (ustr ''code''))
               then ApiErrorReport (py_str (isprintable utf8_runtime)
                      (dict_get_default ?data (ustr ''message'') (JStr (ustr ''Unknown error''))))
               else NoJobDataReport)"
    by (simp add: dict_get_def)
  show ?thesis
    using missing_data_is_failure [OF d l r]
    by simp
qed

text \<open>
  The claim that nothing is raised fails on a UTF-8 terminal at
  \<^verbatim>\<open>{"code": 7, "message": "\ud83d"}\<close>, a document without \<^verbatim>\<open>data\<close> whose message is
  one lone surrogate (code point 55357): \<^verbatim>\<open>print_job_results\<close> raises.
\<close>

theorem missing_data_raises_counterexample:
  "map_of [(ustr ''code'', JInt 7), (ustr ''message'', JStr [55357])] (ustr ''data'') = None
   \<and> print_job_results utf8_runtime [(ustr ''code'', JInt 7), (ustr ''message'', JStr [55357])]
     = ([], Some UnicodeEncodeError)"
  by (simp add: print_job_results_def dict_get_def dict_get_default_def utf8_encodes_def)

subsection \<open>The empty list\<close>

text \<open>
  Claim C7, as the code has it. For every raw response with a falsy or absent error
  marker, \<^verbatim>\<open>code\<close> equal to 0, an object \<^verbatim>\<open>data\<close> and \<^verbatim>\<open>data.job_post_list\<close> equal to
  the empty list, with the total being \<^verbatim>\<open>data.count\<close> when that key is present and 0
  otherwise: \<^verbatim>\<open>format_job_results\<close> returns the message that no postings were found,
  with the total, which is no failure. \<^verbatim>\<open>print_job_results\<close> prints the count line, with
  the total and 0 shown, and then the line that no postings were found, neither of them a
  failure line, when stdout can encode both; when it cannot encode the count line it raises
  \<^verbatim>\<open>UnicodeEncodeError\<close> and prints nothing, and when it cannot encode the second line it
  raises after the count line. \<^verbatim>\<open>search_jobs_internal\<close> returns the response with
  \<^verbatim>\<open>success\<close> true, no jobs and no message, whose \<^verbatim>\<open>total_count\<close> is what pydantic's
  validation of an \<^verbatim>\<open>int\<close> field makes of the total: an integer of 64 bits is the total
  itself; a \<^verbatim>\<open>null\<close> is rejected, and the function raises \<^verbatim>\<open>HTTPException\<close>.
\<close>

theorem empty_list_is_success:
  assumes "\<not> truthy (dict_get data (ustr ''error''))"
    and "dict_get data (ustr ''code'') = JInt 0"
    and "map_of data (ustr ''data'') = Some (JObj ds)"
    and "map_of ds (ustr ''job_post_list'') = Some (JList [])"
    and "tc = (case map_of ds (ustr ''count'') of Some c \<Rightarrow> c | None \<Rightarrow> JInt 0)"
    and "fl = FoundLine (py_str (isprintable rt) tc) 0"
  shows "format_job_results rt data = Inr (NoPostingsReport (py_str (isprintable rt) tc))
       \<and> \<not> failure_report (NoPostingsReport (py_str (isprintable rt) tc))
       \<and> print_job_results rt data
           = (if encodable (stdout_encodes rt) fl
              then (if encodable (stdout_encodes rt) NoPostingsLine
                    then ([fl, NoPostingsLine], None)
                    else ([fl], Some UnicodeEncodeError))
              else ([], Some UnicodeEncodeError))
       \<and> \<not> failure_line fl \<and> \<not> failure_line NoPostingsLine
       \<and> search_jobs_internal rt data
           = (case validate_total_count rt tc of
                None \<Rightarrow> Inl HTTPException
              | Some c \<Rightarrow> Inr \<lparr>success = True, total_count = c, jobs = [], message = None\<rparr>)
       \<and> (\<forall>c. tc = JInt c \<and> - (2 ^ 63) \<le> c \<and> c < 2 ^ 63 \<longrightarrow>
             search_jobs_internal rt data
               = Inr \<lparr>success = True, total_count = c, jobs = [], message = None\<rparr>)
       \<and> (tc = JNull \<longrightarrow> search_jobs_internal rt data = Inl HTTPException)"
proof -
  have z: "\<not> ne_zero (dict_get data (ustr ''code''))"
    using assms(2) by simp
  have t: "dict_get_default ds (ustr ''count'') (JInt (int (length ([] :: json list)))) = tc"
    by (simp add: assms(5) dict_get_default_def)
  have s: "search_jobs_internal rt data
           = (case validate_total_count rt tc of
                None \<Rightarrow> Inl HTTPException
              | Some c \<Rightarrow> Inr \<lparr>success = True, total_count = c, jobs = [], message = None\<rparr>)"
    using t by (simp add: search_jobs_internal_object [OF assms(1) z assms(3,4)])
  have v: "(\<forall>c. tc = JInt c \<and> - (2 ^ 63) \<le> c \<and> c < 2 ^ 63 \<longrightarrow>
             search_jobs_internal rt data
               = Inr \<lparr>success = True, total_count = c, jobs = [], message = None\<rparr>)
       \<and> (tc = JNull \<longrightarrow> search_jobs_internal rt data = Inl HTTPException)"
    unfolding s by (auto simp: validate_total_count_def)
  have p: "format_job_results rt data = Inr (NoPostingsReport (py_str (isprintable rt) tc))
       \<and> \<not> failure_report (NoPostingsReport (py_str (isprintable rt) tc))
       \<and> print_job_results rt data
           = (if encodable (stdout_encodes rt) fl
              then (if encodable (stdout_encodes rt) NoPostingsLine
                    then ([fl, NoPostingsLine], None)
                    else ([fl], Some UnicodeEncodeError))
              else ([], Some UnicodeEncodeError))
       \<and> \<not> failure_line fl \<and> \<not> failure_line NoPostingsLine"
    using t assms(6)
    by (simp add: print_job_results_object [OF assms(1) z assms(3,4)]
        format_job_results_object [OF assms(1) z assms(3,4)])
  show ?thesis
    using p s v by (simp only: simp_thms)
qed

text \<open>
  The theorem on a UTF-8 terminal, at \<^verbatim>\<open>{"code": 0, "data": {"job_post_list": []}}\<close>.
\<close>

theorem empty_list_is_success_witness:
  "print_job_results utf8_runtime
      [(ustr ''code'', JInt 0), (ustr ''data'', JObj [(ustr ''job_post_list'', JList [])])]
     = ([FoundLine (ustr ''0'') 0, NoPostingsLine], None)
   \<and> format_job_results utf8_runtime
      [(ustr ''code'', JInt 0), (ustr ''data'', JObj [(ustr ''job_post_list'', JList [])])]
     = Inr (NoPostingsReport (ustr ''0''))
   \<and> search_jobs_internal utf8_runtime
      [(ustr ''code'', JInt 0), (ustr ''data'', JObj [(ustr ''job_post_list'', JList [])])]
     = Inr \<lparr>success = True, total_count = 0, jobs = [], message = None\<rparr>"
proof -
  let ?ds = "[(ustr ''job_post_list'', JList [])]"
  let ?data = "[(ustr ''code'', JInt 0), (ustr ''data'', JObj ?ds)]"
  have e: "\<not> truthy (dict_get ?data (ustr ''error''))"
    by (simp add: dict_get_def)
  have c: "dict_get ?data (ustr ''code'') = JInt 0"
    by (simp add: dict_get_def)
  have d: "map_of ?data (ustr ''data'') = Some (JObj ?ds)"
    by simp
  have j: "map_of ?ds (ustr ''job_post_list'') = Some (JList [])"
    by simp
  have t: "JInt 0 = (case map_of ?ds (ustr ''count'') of Some c \<Rightarrow> c | None \<Rightarrow> JInt 0)"
    by simp
  have l: "FoundLine (ustr ''0'') 0 = FoundLine (py_str (isprintable utf8_runtime) (JInt 0)) 0"
    by (simp add: str_int_digit)
  show ?thesis
    using empty_list_is_success [OF e c d j t l]
    by (simp add: str_int_digit validate_total_count_def)
qed

text \<open>
  The claim fails on a UTF-8 terminal at
  \<^verbatim>\<open>{"code": 0, "data": {"count": "\ud83d", "job_post_list": []}}\<close>, where the count is a
  string of one lone surrogate (code point 55357): \<^verbatim>\<open>print_job_results\<close> reports no
  success, it raises.
\<close>

theorem empty_list_raises_counterexample:
  "print_job_results utf8_runtime
      [(ustr ''code'', JInt 0),
       (ustr ''data'', JObj [(ustr ''count'', JStr [55357]), (ustr ''job_post_list'', JList [])])]
     = ([], Some UnicodeEncodeError)"
  by (simp add: print_job_results_def dict_get_def dict_get_default_def utf8_encodes_def)

subsection \<open>Previews\<close>

text \<open>
  Claim C3. The text is cleaned by replacing each newline and each carriage return by a
  space and stripping the white space at both ends. The preview of a cleaned text \<open>c\<close>
  with boundary \<open>b\<close> is \<open>c\<close> itself when \<open>c\<close> has at most \<open>b\<close> characters, and the first
  \<open>b\<close> characters of \<open>c\<close> followed by three dots when it has more; so the dots are
  appended exactly when the length exceeds the boundary, and no preview has more than
  \<open>b + 3\<close> characters.

  Both functions put this preview into their output, with the boundary 150 for the
  description and 100 for the requirement. Take a document that passes the two gates and
  whose \<^verbatim>\<open>data.job_post_list\<close> is a list, and in that list, at any place, a job record
  whose locations are extracted and joined without an exception and whose
  \<^verbatim>\<open>description\<close> and \<^verbatim>\<open>requirement\<close> are strings or absent. Then the block of this job
  has the five lines of title, code, location, type and URL, after them the description
  line with the preview of the cleaned description, if the description is not empty, and
  last the requirement line with the preview of the cleaned requirement, if the requirement
  is not empty. \<^verbatim>\<open>format_job_results\<close> returns this block at the place of the job,
  between the blocks of the jobs before and after it. \<^verbatim>\<open>print_job_results\<close> prints the
  count line, the rule, the jobs before, then this block and a blank line, then the jobs
  after; each \<^verbatim>\<open>print\<close> succeeds when stdout can encode its line.
\<close>

theorem preview_truncation_law:
  "(\<not> truthy (dict_get data (ustr ''error''))
      \<and> \<not> ne_zero (dict_get data (ustr ''code''))
      \<and> map_of data (ustr ''data'') = Some (JObj ds)
      \<and> map_of ds (ustr ''job_post_list'') = Some (JList (pre @ JObj j # rest))
      \<and> extract_locations (isprintable rt) j = Inr locs
      \<and> location_str locs = Inr ls
      \<and> dict_get_default j (ustr ''description'') (JStr []) = JStr d
      \<and> dict_get_default j (ustr ''requirement'') (JStr []) = JStr r
      \<and> n = Suc (length pre + length rest)
      \<and> tc = py_str (isprintable rt) (dict_get_default ds (ustr ''count'') (JInt (int n)))
    \<longrightarrow>
      format_job (isprintable rt) i (JObj j) = Inr (job_lines (isprintable rt) i j ls d r)
    \<and> print_job (stdout_encodes rt) (isprintable rt) i (JObj j)
        = print_lines (stdout_encodes rt) (job_lines (isprintable rt) i j ls d r @ [BlankLine])
    \<and> format_job_results rt data =
        (case format_jobs (isprintable rt) 1 pre of
           Inl e \<Rightarrow> Inl e
         | Inr bs \<Rightarrow>
             (case format_jobs (isprintable rt) (Suc (Suc (length pre))) rest of
                Inl e \<Rightarrow> Inl e
              | Inr bs' \<Rightarrow>
                  Inr (ResultsReport tc n
                         (bs @ job_lines (isprintable rt) (Suc (length pre)) j ls d r # bs'))))
    \<and> print_job_results rt data =
        and_then (print_lines (stdout_encodes rt) [FoundLine tc n, RuleLine])
          (and_then (print_jobs (stdout_encodes rt) (isprintable rt) 1 pre)
             (and_then
                (print_lines (stdout_encodes rt)
                   (job_lines (isprintable rt) (Suc (length pre)) j ls d r @ [BlankLine]))
                (print_jobs (stdout_encodes rt) (isprintable rt) (Suc (Suc (length pre))) rest))))
   \<and> (\<forall>b c. (length c \<le> b \<longrightarrow> preview b c = c)
          \<and> (b < length c \<longrightarrow> preview b c = take b c @ ustr ''...'')
          \<and> (preview b c = take b c @ ustr ''...'' \<longleftrightarrow> b < length c)
          \<and> length (preview b c) \<le> b + 3)
   \<and> (\<forall>t. clean_text t = py_strip (py_replace 13 32 (py_replace 10 32 t)))
   \<and> length (job_lines P k j ls d r) = 5 + (if d = [] then 0 else 1) + (if r = [] then 0 else 1)
   \<and> (d \<noteq> [] \<longrightarrow> job_lines P k j ls d r ! 5 = DescriptionLine (preview 150 (clean_text d)))
   \<and> (r \<noteq> [] \<longrightarrow> last (job_lines P k j ls d r) = RequirementsLine (preview 100 (clean_text r)))
   \<and> (d = [] \<longrightarrow> (\<forall>t. DescriptionLine t \<notin> set (job_lines P k j ls d r)))
   \<and> (r = [] \<longrightarrow> (\<forall>t. RequirementsLine t \<notin> set (job_lines P k j ls d r)))"
proof -
  have ties: "format_job (isprintable rt) i (JObj j) = Inr (job_lines (isprintable rt) i j ls d r)
    \<and> print_job (stdout_encodes rt) (isprintable rt) i (JObj j)
        = print_lines (stdout_encodes rt) (job_lines (isprintable rt) i j ls d r @ [BlankLine])
    \<and> format_job_results rt data =
        (case format_jobs (isprintable rt) 1 pre of
           Inl e \<Rightarrow> Inl e
         | Inr bs \<Rightarrow>
             (case format_jobs (isprintable rt) (Suc (Suc (length pre))) rest of
                Inl e \<Rightarrow> Inl e
              | Inr bs' \<Rightarrow>
                  Inr (ResultsReport tc n
                         (bs @ job_lines (isprintable rt) (Suc (length pre)) j ls d r # bs'))))
    \<and> print_job_results rt data =
        and_then (print_lines (stdout_encodes rt) [FoundLine tc n, RuleLine])
          (and_then (print_jobs (stdout_encodes rt) (isprintable rt) 1 pre)
             (and_then
                (print_lines (stdout_encodes rt)
                   (job_lines (isprintable rt) (Suc (length pre)) j ls d r @ [BlankLine]))
                (print_jobs (stdout_encodes rt) (isprintable rt) (Suc (Suc (length pre))) rest)))"
    if "\<not> truthy (dict_get data (ustr ''error''))"
      and "\<not> ne_zero (dict_get data (ustr ''code''))"
      and "map_of data (ustr ''data'') = Some (JObj ds)"
      and "map_of ds (ustr ''job_post_list'') = Some (JList (pre @ JObj j # rest))"
      and "extract_locations (isprintable rt) j = Inr locs"
      and "location_str locs = Inr ls"
      and "dict_get_default j (ustr ''description'') (JStr []) = JStr d"
      and "dict_get_default j (ustr ''requirement'') (JStr []) = JStr r"
      and "n = Suc (length pre + length rest)"
      and "tc = py_str (isprintable rt) (dict_get_default ds (ustr ''count'') (JInt (int n)))"
    using format_job_exact [OF that(5-8)] print_job_exact [OF that(5-8)]
      job_in_document [OF that]
    by (intro conjI)
  have law: "(length c \<le> b \<longrightarrow> preview b c = c)
          \<and> (b < length c \<longrightarrow> preview b c = take b c @ ustr ''...'')
          \<and> (preview b c = take b c @ ustr ''...'' \<longleftrightarrow> b < length c)
          \<and> length (preview b c) \<le> b + 3" for b c
    by (rule preview_law)
  show ?thesis
    using law job_lines_places [where P = P and i = k and j = j and ls = ls and d = d and r = r]
    by (intro conjI impI allI; (elim conjE)?) (simp_all add: ties clean_text_def)
qed

text \<open>
  The theorem on a UTF-8 terminal, at a document with two jobs. The second has a
  description of 200 letters \<^verbatim>\<open>A\<close>, of which the line shows 150 and three dots, and the
  requirement \<^verbatim>\<open>" P\r\nQ "\<close>, which is shown as \<^verbatim>\<open>P\<close>, two spaces and \<^verbatim>\<open>Q\<close>.
\<close>

theorem preview_truncation_law_witness:
  "print_job_results utf8_runtime
      [(ustr ''code'', JInt 0),
       (ustr ''data'', JObj
          [(ustr ''job_post_list'', JList
              [JObj [(ustr ''title'', JStr (ustr ''T''))],
               JObj [(ustr ''id'', JStr (ustr ''9'')), (ustr ''title'', JStr (ustr ''Engineer'')),
                     (ustr ''city_info'', JObj [(ustr ''name'', JStr (ustr ''Shenzhen''))]),
                     (ustr ''description'', JStr (replicate 200 65)),
                     (ustr ''requirement'', JStr [32, 80, 13, 10, 81, 32])]])])]
     = ([FoundLine (ustr ''2'') 2, RuleLine,
         TitleLine 1 (ustr ''T''), JobCodeLine (ustr ''N/A''), LocationLine (ustr ''N/A''),
         TypeLine (ustr ''N/A''),
         UrlLine (ustr ''https://xiaomi.jobs.f.mioffice.cn/index/position//detail''), BlankLine,
         TitleLine 2 (ustr ''Engineer''), JobCodeLine (ustr ''N/A''),
         LocationLine (ustr ''Shenzhen''), TypeLine (ustr ''N/A''),
         UrlLine (ustr ''https://xiaomi.jobs.f.mioffice.cn/index/position/9/detail''),
         DescriptionLine (replicate 150 65 @ ustr ''...''),
         RequirementsLine [80, 32, 32, 81], BlankLine], None)
   \<and> format_job_results utf8_runtime
      [(ustr ''code'', JInt 0),
       (ustr ''data'', JObj
          [(ustr ''job_post_list'', JList
              [JObj [(ustr ''title'', JStr (ustr ''T''))],
               JObj [(ustr ''id'', JStr (ustr ''9'')), (ustr ''title'', JStr (ustr ''Engineer'')),
                     (ustr ''city_info'', JObj [(ustr ''name'', JStr (ustr ''Shenzhen''))]),
                     (ustr ''description'', JStr (replicate 200 65)),
                     (ustr ''requirement'', JStr [32, 80, 13, 10, 81, 32])]])])]
     = Inr (ResultsReport (ustr ''2'') 2
         [[TitleLine 1 (ustr ''T''), JobCodeLine (ustr ''N/A''), LocationLine (ustr ''N/A''),
           TypeLine (ustr ''N/A''),
           UrlLine (ustr ''https://xiaomi.jobs.f.mioffice.cn/index/position//detail'')],
          [TitleLine 2 (ustr ''Engineer''), JobCodeLine (ustr ''N/A''),
           LocationLine (ustr ''Shenzhen''), TypeLine (ustr ''N/A''),
           UrlLine (ustr ''https://xiaomi.jobs.f.mioffice.cn/index/position/9/detail''),
           DescriptionLine (replicate 150 65 @ ustr ''...''),
           RequirementsLine [80, 32, 32, 81]]])
   \<and> preview 150 (replicate 200 65) = replicate 150 65 @ ustr ''...''
   \<and> preview 100 [80, 32, 32, 81] = [80, 32, 32, 81]"
proof -
  let ?j1 = "[(ustr ''title'', JStr (ustr ''T''))]"
  let ?j2 = "[(ustr ''id'', JStr (ustr ''9'')), (ustr ''title'', JStr (ustr ''Engineer'')),
              (ustr ''city_info'', JObj [(ustr ''name'', JStr (ustr ''Shenzhen''))]),
              (ustr ''description'', JStr (replicate 200 65)),
              (ustr ''requirement'', JStr [32, 80, 13, 10, 81, 32])]"
  let ?ds = "[(ustr ''job_post_list'', JList [JObj ?j1, JObj ?j2])]"
  let ?data = "[(ustr ''code'', JInt 0), (ustr ''data'', JObj ?ds)]"
  let ?r = "[32, 80, 13, 10, 81, 32] :: pystr"
  have h: "\<not> truthy (dict_get ?data (ustr ''error''))
      \<and> \<not> ne_zero (dict_get ?data (ustr ''code''))
      \<and> map_of ?data (ustr ''data'') = Some (JObj ?ds)
      \<and> map_of ?ds (ustr ''job_post_list'') = Some (JList ([JObj ?j1] @ JObj ?j2 # []))
      \<and> extract_locations (isprintable utf8_runtime) ?j2 = Inr [JStr (ustr ''Shenzhen'')]
      \<and> location_str [JStr (ustr ''Shenzhen'')] = Inr (ustr ''Shenzhen'')
      \<and> dict_get_default ?j2 (ustr ''description'') (JStr []) = JStr (replicate 200 65)
      \<and> dict_get_default ?j2 (ustr ''requirement'') (JStr []) = JStr ?r
      \<and> 2 = Suc (length [JObj ?j1] + length ([] :: json list))
      \<and> ustr ''2'' = py_str (isprintable utf8_runtime)
                        (dict_get_default ?ds (ustr ''count'') (JInt (int 2)))"
    by (simp add: dict_get_def dict_get_default_def extract_locations_def single_location_def
        location_str_def py_join_def str_int_digit)
  note t = preview_truncation_law
      [where rt = utf8_runtime and data = ?data and ds = ?ds and pre = "[JObj ?j1]" and j = ?j2
         and rest = "[]" and locs = "[JStr (ustr ''Shenzhen'')]" and ls = "ustr ''Shenzhen''"
         and d = "replicate 200 65" and r = ?r and n = 2 and tc = "ustr ''2''" and i = 2
         and P = latin1_table and k = 2]
  note ties = t [THEN conjunct1, THEN mp, OF h]
  note law = t [THEN conjunct2, THEN conjunct1]
  have c1: "clean_text (replicate 200 65) = replicate 200 65"
    by (simp add: clean_text_replicate py_isspace_def)
  have c2: "clean_text ?r = [80, 32, 32, 81]"
    by (simp add: clean_text_def py_strip_def py_replace_def py_isspace_def)
  have p1: "preview 150 (replicate 200 65) = replicate 150 65 @ ustr ''...''"
    using law [THEN spec [where x = "150 :: nat"], THEN spec [where x = "replicate 200 65"]]
    by simp
  have p2: "preview 100 [80, 32, 32, 81] = [80, 32, 32, 81]"
    using law [THEN spec [where x = "100 :: nat"], THEN spec [where x = "[80, 32, 32, 81]"]]
    by simp
  have jl: "job_lines (isprintable utf8_runtime) (Suc (length [JObj ?j1])) ?j2 (ustr ''Shenzhen'')
              (replicate 200 65) ?r
      = [TitleLine 2 (ustr ''Engineer''), JobCodeLine (ustr ''N/A''),
         LocationLine (ustr ''Shenzhen''), TypeLine (ustr ''N/A''),
         UrlLine (ustr ''https://xiaomi.jobs.f.mioffice.cn/index/position/9/detail''),
         DescriptionLine (replicate 150 65 @ ustr ''...''),
         RequirementsLine [80, 32, 32, 81]]"
    by (simp add: job_lines_def dict_get_default_def c1 c2 p1 p2 ustr_append)
  have f1: "format_jobs (isprintable utf8_runtime) 1 [JObj ?j1]
      = Inr [[TitleLine 1 (ustr ''T''), JobCodeLine (ustr ''N/A''), LocationLine (ustr ''N/A''),
              TypeLine (ustr ''N/A''),
              UrlLine (ustr ''https://xiaomi.jobs.f.mioffice.cn/index/position//detail'')]]"
    by (simp add: format_job_def extract_locations_def location_str_def text_preview_def
        detail_url_def opt_line_def dict_get_def dict_get_default_def ustr_append)
  have f2: "format_jobs (isprintable utf8_runtime) (Suc (Suc (length [JObj ?j1]))) [] = Inr []"
    by simp
  have q1: "print_jobs (stdout_encodes utf8_runtime) (isprintable utf8_runtime) 1 [JObj ?j1]
      = ([TitleLine 1 (ustr ''T''), JobCodeLine (ustr ''N/A''), LocationLine (ustr ''N/A''),
          TypeLine (ustr ''N/A''),
          UrlLine (ustr ''https://xiaomi.jobs.f.mioffice.cn/index/position//detail''),
          BlankLine], None)"
    by (simp add: print_job_def extract_locations_def location_str_def text_preview_def
        detail_url_def opt_line_def dict_get_def dict_get_default_def ustr_append)
  have q2: "print_jobs (stdout_encodes utf8_runtime) (isprintable utf8_runtime)
              (Suc (Suc (length [JObj ?j1]))) [] = ([], None)"
    by simp
  have e: "utf8_encodes 32" "utf8_encodes 80" "utf8_encodes 81" "utf8_encodes 65"
    by (simp_all add: utf8_encodes_def)
  have F: "format_job_results utf8_runtime ?data
      = Inr (ResultsReport (ustr ''2'') 2
         [[TitleLine 1 (ustr ''T''), JobCodeLine (ustr ''N/A''), LocationLine (ustr ''N/A''),
           TypeLine (ustr ''N/A''),
           UrlLine (ustr ''https://xiaomi.jobs.f.mioffice.cn/index/position//detail'')],
          [TitleLine 2 (ustr ''Engineer''), JobCodeLine (ustr ''N/A''),
           LocationLine (ustr ''Shenzhen''), TypeLine (ustr ''N/A''),
           UrlLine (ustr ''https://xiaomi.jobs.f.mioffice.cn/index/position/9/detail''),
           DescriptionLine (replicate 150 65 @ ustr ''...''),
           RequirementsLine [80, 32, 32, 81]]])"
    unfolding ties [THEN conjunct2, THEN conjunct2, THEN conjunct1] f1 f2 jl
    by simp
  have Q: "print_job_results utf8_runtime ?data
     = ([FoundLine (ustr ''2'') 2, RuleLine,
         TitleLine 1 (ustr ''T''), JobCodeLine (ustr ''N/A''), LocationLine (ustr ''N/A''),
         TypeLine (ustr ''N/A''),
         UrlLine (ustr ''https://xiaomi.jobs.f.mioffice.cn/index/position//detail''), BlankLine,
         TitleLine 2 (ustr ''Engineer''), JobCodeLine (ustr ''N/A''),
         LocationLine (ustr ''Shenzhen''), TypeLine (ustr ''N/A''),
         UrlLine (ustr ''https://xiaomi.jobs.f.mioffice.cn/index/position/9/detail''),
         DescriptionLine (replicate 150 65 @ ustr ''...''),
         RequirementsLine [80, 32, 32, 81], BlankLine], None)"
    unfolding ties [THEN conjunct2, THEN conjunct2, THEN conjunct2] q1 q2 jl
    by (simp add: e)
  show ?thesis
    using Q F p1 p2 by (intro conjI)
qed

subsection \<open>Locations\<close>

text \<open>
  Claim C4, as the code has it. The code goes by the truth value of the two fields, not by
  their presence. When \<^verbatim>\<open>city_info\<close> is present and truthy (not \<^verbatim>\<open>null\<close>, \<^verbatim>\<open>false\<close>, 0
  or an empty string, list or object), the result is the single location taken from it:
  its \<^verbatim>\<open>name\<close> field if it is an object (its string form when \<^verbatim>\<open>name\<close> is absent), the
  string itself if it is a string. Otherwise, when \<^verbatim>\<open>city_list\<close> is a list, the result is
  the same extraction applied to each of its elements in order. When both fields are absent
  or falsy the result is empty.
\<close>

theorem extract_locations_by_truthiness:
  "(truthy (dict_get job (ustr ''city_info'')) \<longrightarrow>
      extract_locations P job = Inr [single_location P (dict_get job (ustr ''city_info''))])
   \<and> (\<not> truthy (dict_get job (ustr ''city_info''))
        \<and> dict_get job (ustr ''city_list'') = JList cities \<longrightarrow>
      extract_locations P job = Inr (map (single_location P) cities))
   \<and> (\<not> truthy (dict_get job (ustr ''city_info''))
        \<and> \<not> truthy (dict_get job (ustr ''city_list'')) \<longrightarrow>
      extract_locations P job = Inr [])
   \<and> (map_of job (ustr ''city_info'') = None \<and> map_of job (ustr ''city_list'') = None \<longrightarrow>
      extract_locations P job = Inr [])
   \<and> (\<forall>c n. map_of c (ustr ''name'') = Some n \<longrightarrow> single_location P (JObj c) = n)
   \<and> (\<forall>c. map_of c (ustr ''name'') = None \<longrightarrow>
         single_location P (JObj c) = JStr (py_str P (JObj c)))
   \<and> (\<forall>s. single_location P (JStr s) = JStr s)"
  by (auto simp: extract_locations_def single_location_def dict_get_def dict_get_default_def)

text \<open>
  The theorem at the three examples of the specification, \<^verbatim>\<open>{"city_info": {"name":
  "Beijing"}}\<close>, \<^verbatim>\<open>{"city_list": [{"name": "A"}, {"name": "B"}]}\<close> and \<^verbatim>\<open>{}\<close>, and at a
  \<^verbatim>\<open>city_info\<close> that is a string.
\<close>

theorem extract_locations_by_truthiness_witness:
  "extract_locations latin1_table [(ustr ''city_info'', JObj [(ustr ''name'', JStr (ustr ''Beijing''))])]
     = Inr [JStr (ustr ''Beijing'')]
   \<and> extract_locations latin1_table
       [(ustr ''city_list'', JList [JObj [(ustr ''name'', JStr (ustr ''A''))],
                                    JObj [(ustr ''name'', JStr (ustr ''B''))]])]
     = Inr [JStr (ustr ''A''), JStr (ustr ''B'')]
   \<and> extract_locations latin1_table [] = Inr []
   \<and> extract_locations latin1_table [(ustr ''city_info'', JStr (ustr ''Wuhan''))]
     = Inr [JStr (ustr ''Wuhan'')]"
  using extract_locations_by_truthiness
      [of "[(ustr ''city_info'', JObj [(ustr ''name'', JStr (ustr ''Beijing''))])]" latin1_table "[]"]
    extract_locations_by_truthiness
      [of "[(ustr ''city_list'', JList [JObj [(ustr ''name'', JStr (ustr ''A''))],
                                        JObj [(ustr ''name'', JStr (ustr ''B''))]])]" latin1_table
          "[JObj [(ustr ''name'', JStr (ustr ''A''))], JObj [(ustr ''name'', JStr (ustr ''B''))]]"]
    extract_locations_by_truthiness [of "[]" latin1_table "[]"]
    extract_locations_by_truthiness [of "[(ustr ''city_info'', JStr (ustr ''Wuhan''))]" latin1_table "[]"]
  by (simp add: dict_get_def)

text \<open>
  By presence the claim fails. With \<^verbatim>\<open>{"city_info": "", "city_list": [{"name": "A"}]}\<close>
  the specification's rule gives the empty string of \<^verbatim>\<open>city_info\<close> and the code gives
  \<^verbatim>\<open>["A"]\<close>; with \<^verbatim>\<open>{"city_info": {}}\<close> the rule gives the string form of the empty
  object and the code gives no location.
\<close>

theorem locations_spec_counterexample:
  "locations_spec latin1_table
      [(ustr ''city_info'', JStr []),
       (ustr ''city_list'', JList [JObj [(ustr ''name'', JStr (ustr ''A''))]])]
     = Some [JStr []]
   \<and> extract_locations latin1_table
      [(ustr ''city_info'', JStr []),
       (ustr ''city_list'', JList [JObj [(ustr ''name'', JStr (ustr ''A''))]])]
     = Inr [JStr (ustr ''A'')]
   \<and> locations_spec latin1_table [(ustr ''city_info'', JObj [])] = Some [JStr (ustr ''{}'')]
   \<and> extract_locations latin1_table [(ustr ''city_info'', JObj [])] = Inr []"
  by (simp add: locations_spec_def extract_locations_def single_location_def dict_get_def
      dict_get_default_def ustr_append)

subsection \<open>The detail URL\<close>

text \<open>
  Claim C5. For every raw job record the detail URL is the fixed prefix, then
  \<^verbatim>\<open>str(id)\<close> for the record's \<^verbatim>\<open>id\<close>, which is the id itself when it is a string, and
  the empty string when \<^verbatim>\<open>id\<close> is absent, then \<^verbatim>\<open>/detail\<close>: the id \<^verbatim>\<open>12345\<close> gives
  \<^verbatim>\<open>https://xiaomi.jobs.f.mioffice.cn/index/position/12345/detail\<close>, an absent id gives
  \<^verbatim>\<open>https://xiaomi.jobs.f.mioffice.cn/index/position//detail\<close>.

  The URL line, the fifth line of the block of a job, holds this URL. Take a document that
  passes the two gates and whose \<^verbatim>\<open>data.job_post_list\<close> is a list, and in that list, at
  any place, a job record whose locations are extracted and joined without an exception and
  whose \<^verbatim>\<open>description\<close> and \<^verbatim>\<open>requirement\<close> are strings or absent.
  \<^verbatim>\<open>format_job_results\<close> returns the block of this job at its place;
  \<^verbatim>\<open>print_job_results\<close> prints the block and a blank line at its place, each
  \<^verbatim>\<open>print\<close> succeeding when stdout can encode its line.
\<close>

theorem detail_url_from_id:
  "(\<not> truthy (dict_get data (ustr ''error''))
      \<and> \<not> ne_zero (dict_get data (ustr ''code''))
      \<and> map_of data (ustr ''data'') = Some (JObj ds)
      \<and> map_of ds (ustr ''job_post_list'') = Some (JList (pre @ JObj j # rest))
      \<and> extract_locations (isprintable rt) j = Inr locs
      \<and> location_str locs = Inr ls
      \<and> dict_get_default j (ustr ''description'') (JStr []) = JStr d
      \<and> dict_get_default j (ustr ''requirement'') (JStr []) = JStr r
      \<and> n = Suc (length pre + length rest)
      \<and> tc = py_str (isprintable rt) (dict_get_default ds (ustr ''count'') (JInt (int n)))
    \<longrightarrow>
      format_job (isprintable rt) i (JObj j) = Inr (job_lines (isprintable rt) i j ls d r)
    \<and> print_job (stdout_encodes rt) (isprintable rt) i (JObj j)
        = print_lines (stdout_encodes rt) (job_lines (isprintable rt) i j ls d r @ [BlankLine])
    \<and> format_job_results rt data =
        (case format_jobs (isprintable rt) 1 pre of
           Inl e \<Rightarrow> Inl e
         | Inr bs \<Rightarrow>
             (case format_jobs (isprintable rt) (Suc (Suc (length pre))) rest of
                Inl e \<Rightarrow> Inl e
              | Inr bs' \<Rightarrow>
                  Inr (ResultsReport tc n
                         (bs @ job_lines (isprintable rt) (Suc (length pre)) j ls d r # bs'))))
    \<and> print_job_results rt data =
        and_then (print_lines (stdout_encodes rt) [FoundLine tc n, RuleLine])
          (and_then (print_jobs (stdout_encodes rt) (isprintable rt) 1 pre)
             (and_then
                (print_lines (stdout_encodes rt)
                   (job_lines (isprintable rt) (Suc (length pre)) j ls d r @ [BlankLine]))
                (print_jobs (stdout_encodes rt) (isprintable rt) (Suc (Suc (length pre))) rest))))
   \<and> job_lines P k j ls d r ! 4 = UrlLine (detail_url P j)
   \<and> (\<forall>v. map_of j (ustr ''id'') = Some v \<longrightarrow>
         detail_url P j
           = ustr ''https://xiaomi.jobs.f.mioffice.cn/index/position/'' @ py_str P v
             @ ustr ''/detail'')
   \<and> (\<forall>s. map_of j (ustr ''id'') = Some (JStr s) \<longrightarrow>
         detail_url P j
           = ustr ''https://xiaomi.jobs.f.mioffice.cn/index/position/'' @ s @ ustr ''/detail'')
   \<and> (map_of j (ustr ''id'') = Some (JStr (ustr ''12345'')) \<longrightarrow>
         detail_url P j = ustr ''https://xiaomi.jobs.f.mioffice.cn/index/position/12345/detail'')
   \<and> (map_of j (ustr ''id'') = None \<longrightarrow>
         detail_url P j = ustr ''https://xiaomi.jobs.f.mioffice.cn/index/position//detail'')"
proof -
  have ties: "format_job (isprintable rt) i (JObj j) = Inr (job_lines (isprintable rt) i j ls d r)
    \<and> print_job (stdout_encodes rt) (isprintable rt) i (JObj j)
        = print_lines (stdout_encodes rt) (job_lines (isprintable rt) i j ls d r @ [BlankLine])
    \<and> format_job_results rt data =
        (case format_jobs (isprintable rt) 1 pre of
           Inl e \<Rightarrow> Inl e
         | Inr bs \<Rightarrow>
             (case format_jobs (isprintable rt) (Suc (Suc (length pre))) rest of
                Inl e \<Rightarrow> Inl e
              | Inr bs' \<Rightarrow>
                  Inr (ResultsReport tc n
                         (bs @ job_lines (isprintable rt) (Suc (length pre)) j ls d r # bs'))))
    \<and> print_job_results rt data =
        and_then (print_lines (stdout_encodes rt) [FoundLine tc n, RuleLine])
          (and_then (print_jobs (stdout_encodes rt) (isprintable rt) 1 pre)
             (and_then
                (print_lines (stdout_encodes rt)
                   (job_lines (isprintable rt) (Suc (length pre)) j ls d r @ [BlankLine]))
                (print_jobs (stdout_encodes rt) (isprintable rt) (Suc (Suc (length pre))) rest)))"
    if "\<not> truthy (dict_get data (ustr ''error''))"
      and "\<not> ne_zero (dict_get data (ustr ''code''))"
      and "map_of data (ustr ''data'') = Some (JObj ds)"
      and "map_of ds (ustr ''job_post_list'') = Some (JList (pre @ JObj j # rest))"
      and "extract_locations (isprintable rt) j = Inr locs"
      and "location_str locs = Inr ls"
      and "dict_get_default j (ustr ''description'') (JStr []) = JStr d"
      and "dict_get_default j (ustr ''requirement'') (JStr []) = JStr r"
      and "n = Suc (length pre + length rest)"
      and "tc = py_str (isprintable rt) (dict_get_default ds (ustr ''count'') (JInt (int n)))"
    using format_job_exact [OF that(5-8)] print_job_exact [OF that(5-8)]
      job_in_document [OF that]
    by (intro conjI)
  show ?thesis
    using job_lines_places(2) [where P = P and i = k and j = j and ls = ls and d = d and r = r]
    by (intro conjI impI allI; (elim conjE)?)
      (simp_all add: ties detail_url_def dict_get_default_def ustr_append)
qed

text \<open>
  The theorem on a UTF-8 terminal, at a document with three jobs: the first has the id
  \<^verbatim>\<open>"12345"\<close>, the second has none, the id of the third is the number 3.
\<close>

theorem detail_url_from_id_witness:
  "print_job_results utf8_runtime
      [(ustr ''code'', JInt 0),
       (ustr ''data'', JObj
          [(ustr ''job_post_list'', JList
              [JObj [(ustr ''id'', JStr (ustr ''12345''))], JObj [],
               JObj [(ustr ''id'', JInt 3)]])])]
     = ([FoundLine (ustr ''3'') 3, RuleLine,
         TitleLine 1 (ustr ''N/A''), JobCodeLine (ustr ''N/A''), LocationLine (ustr ''N/A''),
         TypeLine (ustr ''N/A''),
         UrlLine (ustr ''https://xiaomi.jobs.f.mioffice.cn/index/position/12345/detail''),
         BlankLine,
         TitleLine 2 (ustr ''N/A''), JobCodeLine (ustr ''N/A''), LocationLine (ustr ''N/A''),
         TypeLine (ustr ''N/A''),
         UrlLine (ustr ''https://xiaomi.jobs.f.mioffice.cn/index/position//detail''),
         BlankLine,
         TitleLine 3 (ustr ''N/A''), JobCodeLine (ustr ''N/A''), LocationLine (ustr ''N/A''),
         TypeLine (ustr ''N/A''),
         UrlLine (ustr ''https://xiaomi.jobs.f.mioffice.cn/index/position/3/detail''),
         BlankLine], None)
   \<and> format_job_results utf8_runtime
      [(ustr ''code'', JInt 0),
       (ustr ''data'', JObj
          [(ustr ''job_post_list'', JList
              [JObj [(ustr ''id'', JStr (ustr ''12345''))], JObj [],
               JObj [(ustr ''id'', JInt 3)]])])]
     = Inr (ResultsReport (ustr ''3'') 3
         [[TitleLine 1 (ustr ''N/A''), JobCodeLine (ustr ''N/A''), LocationLine (ustr ''N/A''),
           TypeLine (ustr ''N/A''),
           UrlLine (ustr ''https://xiaomi.jobs.f.mioffice.cn/index/position/12345/detail'')],
          [TitleLine 2 (ustr ''N/A''), JobCodeLine (ustr ''N/A''), LocationLine (ustr ''N/A''),
           TypeLine (ustr ''N/A''),
           UrlLine (ustr ''https://xiaomi.jobs.f.mioffice.cn/index/position//detail'')],
          [TitleLine 3 (ustr ''N/A''), JobCodeLine (ustr ''N/A''), LocationLine (ustr ''N/A''),
           TypeLine (ustr ''N/A''),
           UrlLine (ustr ''https://xiaomi.jobs.f.mioffice.cn/index/position/3/detail'')]])
   \<and> detail_url latin1_table [(ustr ''id'', JStr (ustr ''12345''))]
     = ustr ''https://xiaomi.jobs.f.mioffice.cn/index/position/12345/detail''
   \<and> detail_url latin1_table []
     = ustr ''https://xiaomi.jobs.f.mioffice.cn/index/position//detail''"
proof -
  let ?j1 = "[(ustr ''id'', JStr (ustr ''12345''))]"
  let ?j3 = "[(ustr ''id'', JInt 3)]"
  let ?ds = "[(ustr ''job_post_list'', JList [JObj ?j1, JObj [], JObj ?j3])]"
  let ?data = "[(ustr ''code'', JInt 0), (ustr ''data'', JObj ?ds)]"
  have h: "\<not> truthy (dict_get ?data (ustr ''error''))
      \<and> \<not> ne_zero (dict_get ?data (ustr ''code''))
      \<and> map_of ?data (ustr ''data'') = Some (JObj ?ds)
      \<and> map_of ?ds (ustr ''job_post_list'') = Some (JList ([JObj ?j1] @ JObj [] # [JObj ?j3]))
      \<and> extract_locations (isprintable utf8_runtime) [] = Inr []
      \<and> location_str [] = Inr (ustr ''N/A'')
      \<and> dict_get_default [] (ustr ''description'') (JStr []) = JStr []
      \<and> dict_get_default [] (ustr ''requirement'') (JStr []) = JStr []
      \<and> 3 = Suc (length [JObj ?j1] + length [JObj ?j3])
      \<and> ustr ''3'' = py_str (isprintable utf8_runtime)
                        (dict_get_default ?ds (ustr ''count'') (JInt (int 3)))"
    by (simp add: dict_get_def dict_get_default_def extract_locations_def location_str_def
        str_int_digit)
  note t = detail_url_from_id
      [where rt = utf8_runtime and data = ?data and ds = ?ds and pre = "[JObj ?j1]" and j = "[]"
         and rest = "[JObj ?j3]" and locs = "[]" and ls = "ustr ''N/A''"
         and d = "[]" and r = "[]" and n = 3 and tc = "ustr ''3''" and i = 2
         and P = latin1_table and k = 2]
  note ties = t [THEN conjunct1, THEN mp, OF h]
  have u2: "detail_url latin1_table []
      = ustr ''https://xiaomi.jobs.f.mioffice.cn/index/position//detail''"
    using t by simp
  have u1: "detail_url latin1_table ?j1
      = ustr ''https://xiaomi.jobs.f.mioffice.cn/index/position/12345/detail''"
    using detail_url_from_id
        [where j = ?j1 and P = latin1_table,
         THEN conjunct2, THEN conjunct2, THEN conjunct2, THEN conjunct2, THEN conjunct1]
    by simp
  have jl: "job_lines (isprintable utf8_runtime) (Suc (length [JObj ?j1])) [] (ustr ''N/A'') [] []
      = [TitleLine 2 (ustr ''N/A''), JobCodeLine (ustr ''N/A''), LocationLine (ustr ''N/A''),
         TypeLine (ustr ''N/A''),
         UrlLine (ustr ''https://xiaomi.jobs.f.mioffice.cn/index/position//detail'')]"
    by (simp add: job_lines_def dict_get_default_def ustr_append)
  have f1: "format_jobs (isprintable utf8_runtime) 1 [JObj ?j1]
      = Inr [[TitleLine 1 (ustr ''N/A''), JobCodeLine (ustr ''N/A''), LocationLine (ustr ''N/A''),
              TypeLine (ustr ''N/A''),
              UrlLine (ustr ''https://xiaomi.jobs.f.mioffice.cn/index/position/12345/detail'')]]"
    by (simp add: format_job_def extract_locations_def location_str_def text_preview_def
        u1 opt_line_def dict_get_def dict_get_default_def)
  have f2: "format_jobs (isprintable utf8_runtime) (Suc (Suc (length [JObj ?j1]))) [JObj ?j3]
      = Inr [[TitleLine 3 (ustr ''N/A''), JobCodeLine (ustr ''N/A''), LocationLine (ustr ''N/A''),
              TypeLine (ustr ''N/A''),
              UrlLine (ustr ''https://xiaomi.jobs.f.mioffice.cn/index/position/3/detail'')]]"
    by (simp add: format_job_def extract_locations_def location_str_def text_preview_def
        detail_url_def opt_line_def dict_get_def dict_get_default_def str_int_digit ustr_append
        numeral_3_eq_3)
  have q1: "print_jobs (stdout_encodes utf8_runtime) (isprintable utf8_runtime) 1 [JObj ?j1]
      = ([TitleLine 1 (ustr ''N/A''), JobCodeLine (ustr ''N/A''), LocationLine (ustr ''N/A''),
          TypeLine (ustr ''N/A''),
          UrlLine (ustr ''https://xiaomi.jobs.f.mioffice.cn/index/position/12345/detail''),
          BlankLine], None)"
    by (simp add: print_job_def extract_locations_def location_str_def text_preview_def
        u1 opt_line_def dict_get_def dict_get_default_def)
  have q2: "print_jobs (stdout_encodes utf8_runtime) (isprintable utf8_runtime)
              (Suc (Suc (length [JObj ?j1]))) [JObj ?j3]
      = ([TitleLine 3 (ustr ''N/A''), JobCodeLine (ustr ''N/A''), LocationLine (ustr ''N/A''),
          TypeLine (ustr ''N/A''),
          UrlLine (ustr ''https://xiaomi.jobs.f.mioffice.cn/index/position/3/detail''),
          BlankLine], None)"
    by (simp add: print_job_def extract_locations_def location_str_def text_preview_def
        detail_url_def opt_line_def dict_get_def dict_get_default_def str_int_digit ustr_append
        numeral_3_eq_3)
  have F: "format_job_results utf8_runtime ?data
     = Inr (ResultsReport (ustr ''3'') 3
         [[TitleLine 1 (ustr ''N/A''), JobCodeLine (ustr ''N/A''), LocationLine (ustr ''N/A''),
           TypeLine (ustr ''N/A''),
           UrlLine (ustr ''https://xiaomi.jobs.f.mioffice.cn/index/position/12345/detail'')],
          [TitleLine 2 (ustr ''N/A''), JobCodeLine (ustr ''N/A''), LocationLine (ustr ''N/A''),
           TypeLine (ustr ''N/A''),
           UrlLine (ustr ''https://xiaomi.jobs.f.mioffice.cn/index/position//detail'')],
          [TitleLine 3 (ustr ''N/A''), JobCodeLine (ustr ''N/A''), LocationLine (ustr ''N/A''),
           TypeLine (ustr ''N/A''),
           UrlLine (ustr ''https://xiaomi.jobs.f.mioffice.cn/index/position/3/detail'')]])"
    unfolding ties [THEN conjunct2, THEN conjunct2, THEN conjunct1] f1 f2 jl
    by simp
  have Q: "print_job_results utf8_runtime ?data
     = ([FoundLine (ustr ''3'') 3, RuleLine,
         TitleLine 1 (ustr ''N/A''), JobCodeLine (ustr ''N/A''), LocationLine (ustr ''N/A''),
         TypeLine (ustr ''N/A''),
         UrlLine (ustr ''https://xiaomi.jobs.f.mioffice.cn/index/position/12345/detail''),
         BlankLine,
         TitleLine 2 (ustr ''N/A''), JobCodeLine (ustr ''N/A''), LocationLine (ustr ''N/A''),
         TypeLine (ustr ''N/A''),
         UrlLine (ustr ''https://xiaomi.jobs.f.mioffice.cn/index/position//detail''),
         BlankLine,
         TitleLine 3 (ustr ''N/A''), JobCodeLine (ustr ''N/A''), LocationLine (ustr ''N/A''),
         TypeLine (ustr ''N/A''),
         UrlLine (ustr ''https://xiaomi.jobs.f.mioffice.cn/index/position/3/detail''),
         BlankLine], None)"
    unfolding ties [THEN conjunct2, THEN conjunct2, THEN conjunct2] q1 q2 jl
    by simp
  show ?thesis
    using Q F u1 u2 by (intro conjI)
qed

subsection \<open>The total count\<close>

text \<open>
  Claim C6. Take a document that passes the two gates, whose \<^verbatim>\<open>data\<close> is an object and
  whose \<^verbatim>\<open>data.job_post_list\<close> is a list, and let the total be \<^verbatim>\<open>data.count\<close> when the
  \<^verbatim>\<open>count\<close> key is present and the number of records in the list otherwise.
  \<^verbatim>\<open>print_job_results\<close> prints the total, as \<^verbatim>\<open>str\<close> makes it, in the count line, which
  is its first line, and goes on with the jobs. \<^verbatim>\<open>format_job_results\<close> returns a report
  with the total, for an empty list, and for any other list whenever no job raises.
  \<^verbatim>\<open>search_jobs_internal\<close> returns, whenever no job raises, the response whose
  \<^verbatim>\<open>total_count\<close> is what pydantic's validation of an \<^verbatim>\<open>int\<close> field makes of the total:
  an integer of 64 bits is the total itself, as is the number of records when \<^verbatim>\<open>count\<close> is
  absent; a \<^verbatim>\<open>null\<close> is rejected, and the function raises \<^verbatim>\<open>HTTPException\<close>.
\<close>

theorem total_count_reported:
  assumes "\<not> truthy (dict_get data (ustr ''error''))"
    and "\<not> ne_zero (dict_get data (ustr ''code''))"
    and "map_of data (ustr ''data'') = Some (JObj ds)"
    and "map_of ds (ustr ''job_post_list'') = Some (JList posts)"
    and "tc = (case map_of ds (ustr ''count'') of
                 Some c \<Rightarrow> c
               | None \<Rightarrow> JInt (int (length posts)))"
  shows "print_job_results rt data =
           and_then
             (print_lines (stdout_encodes rt)
                [FoundLine (py_str (isprintable rt) tc) (length posts)])
             (if posts = [] then print_lines (stdout_encodes rt) [NoPostingsLine]
              else and_then (print_lines (stdout_encodes rt) [RuleLine])
                     (print_jobs (stdout_encodes rt) (isprintable rt) 1 posts))
       \<and> format_job_results rt data =
           (if posts = [] then Inr (NoPostingsReport (py_str (isprintable rt) tc))
            else (case format_jobs (isprintable rt) 1 posts of
                    Inl e \<Rightarrow> Inl e
                  | Inr blocks \<Rightarrow>
                      Inr (ResultsReport (py_str (isprintable rt) tc) (length posts) blocks)))
       \<and> search_jobs_internal rt data =
           (case formatted_jobs (isprintable rt) posts of
              Inl e \<Rightarrow> Inl HTTPException
            | Inr fjs \<Rightarrow>
                (case validate_total_count rt tc of
                   None \<Rightarrow> Inl HTTPException
                 | Some c \<Rightarrow>
                     Inr \<lparr>success = True, total_count = c, jobs = fjs, message = None\<rparr>))
       \<and> (\<forall>c. tc = JInt c \<and> - (2 ^ 63) \<le> c \<and> c < 2 ^ 63 \<longrightarrow>
             validate_total_count rt tc = Some c)
       \<and> (map_of ds (ustr ''count'') = None \<and> int (length posts) < 2 ^ 63 \<longrightarrow>
             validate_total_count rt tc = Some (int (length posts)))
       \<and> (tc = JNull \<longrightarrow> validate_total_count rt tc = None)"
proof -
  have t: "dict_get_default ds (ustr ''count'') (JInt (int (length posts))) = tc"
    by (simp add: assms(5) dict_get_default_def)
  have p: "print_job_results rt data =
           and_then
             (print_lines (stdout_encodes rt)
                [FoundLine (py_str (isprintable rt) tc) (length posts)])
             (if posts = [] then print_lines (stdout_encodes rt) [NoPostingsLine]
              else and_then (print_lines (stdout_encodes rt) [RuleLine])
                     (print_jobs (stdout_encodes rt) (isprintable rt) 1 posts))"
    unfolding print_job_results_object [OF assms(1-4)] t ..
  have f: "format_job_results rt data =
           (if posts = [] then Inr (NoPostingsReport (py_str (isprintable rt) tc))
            else (case format_jobs (isprintable rt) 1 posts of
                    Inl e \<Rightarrow> Inl e
                  | Inr blocks \<Rightarrow>
                      Inr (ResultsReport (py_str (isprintable rt) tc) (length posts) blocks)))"
    unfolding format_job_results_object [OF assms(1-4)] t ..
  have s: "search_jobs_internal rt data =
           (case formatted_jobs (isprintable rt) posts of
              Inl e \<Rightarrow> Inl HTTPException
            | Inr fjs \<Rightarrow>
                (case validate_total_count rt tc of
                   None \<Rightarrow> Inl HTTPException
                 | Some c \<Rightarrow>
                     Inr \<lparr>success = True, total_count = c, jobs = fjs, message = None\<rparr>))"
    unfolding search_jobs_internal_object [OF assms(1-4)] t ..
  have v: "(\<forall>c. tc = JInt c \<and> - (2 ^ 63) \<le> c \<and> c < 2 ^ 63 \<longrightarrow>
             validate_total_count rt tc = Some c)
       \<and> (map_of ds (ustr ''count'') = None \<and> int (length posts) < 2 ^ 63 \<longrightarrow>
             validate_total_count rt tc = Some (int (length posts)))
       \<and> (tc = JNull \<longrightarrow> validate_total_count rt tc = None)"
    by (auto simp: validate_total_count_def assms(5))
  show ?thesis
    by (rule conjI [OF p conjI [OF f conjI [OF s v]]])
qed

text \<open>
  The theorem on a UTF-8 terminal with a pydantic that coerces nothing, at
  \<^verbatim>\<open>{"code": 0, "data": {"count": 7, "job_post_list": [{"id": "9"}]}}\<close>, where the
  total is 7 and one job is shown.
\<close>

theorem total_count_reported_witness:
  "print_job_results utf8_runtime
      [(ustr ''code'', JInt 0),
       (ustr ''data'', JObj [(ustr ''count'', JInt 7),
                             (ustr ''job_post_list'', JList [JObj [(ustr ''id'', JStr (ustr ''9''))]])])]
     = ([FoundLine (ustr ''7'') 1, RuleLine,
         TitleLine 1 (ustr ''N/A''), JobCodeLine (ustr ''N/A''), LocationLine (ustr ''N/A''),
         TypeLine (ustr ''N/A''),
         UrlLine (ustr ''https://xiaomi.jobs.f.mioffice.cn/index/position/9/detail''),
         BlankLine], None)
   \<and> format_job_results utf8_runtime
      [(ustr ''code'', JInt 0),
       (ustr ''data'', JObj [(ustr ''count'', JInt 7),
                             (ustr ''job_post_list'', JList [JObj [(ustr ''id'', JStr (ustr ''9''))]])])]
     = Inr (ResultsReport (ustr ''7'') 1
         [[TitleLine 1 (ustr ''N/A''), JobCodeLine (ustr ''N/A''), LocationLine (ustr ''N/A''),
           TypeLine (ustr ''N/A''),
           UrlLine (ustr ''https://xiaomi.jobs.f.mioffice.cn/index/position/9/detail'')]])
   \<and> search_jobs_internal utf8_runtime
      [(ustr ''code'', JInt 0),
       (ustr ''data'', JObj [(ustr ''count'', JInt 7),
                             (ustr ''job_post_list'', JList [JObj [(ustr ''id'', JStr (ustr ''9''))]])])]
     = Inr \<lparr>success = True, total_count = 7,
            jobs = [JObj [(ustr ''id'', JStr (ustr ''9'')), (ustr ''title'', JNull),
                          (ustr ''code'', JNull), (ustr ''description'', JStr []),
                          (ustr ''requirements'', JStr []), (ustr ''recruit_type'', JNull),
                          (ustr ''url'',
                           JStr (ustr ''https://xiaomi.jobs.f.mioffice.cn/index/position/9/detail'')),
                          (ustr ''locations'', JList [])]],
            message = None\<rparr>"
proof -
  let ?j = "[(ustr ''id'', JStr (ustr ''9''))]"
  let ?ds = "[(ustr ''count'', JInt 7), (ustr ''job_post_list'', JList [JObj ?j])]"
  let ?data = "[(ustr ''code'', JInt 0), (ustr ''data'', JObj ?ds)]"
  have e: "\<not> truthy (dict_get ?data (ustr ''error''))"
    by (simp add: dict_get_def)
  have c: "\<not> ne_zero (dict_get ?data (ustr ''code''))"
    by (simp add: dict_get_def)
  have d: "map_of ?data (ustr ''data'') = Some (JObj ?ds)"
    by simp
  have j: "map_of ?ds (ustr ''job_post_list'') = Some (JList [JObj ?j])"
    by simp
  have t: "JInt 7 = (case map_of ?ds (ustr ''count'') of
                       Some c \<Rightarrow> c
                     | None \<Rightarrow> JInt (int (length [JObj ?j])))"
    by simp
  note inst = total_count_reported [OF e c d j t, where rt = utf8_runtime]
  have v: "validate_total_count utf8_runtime (JInt 7) = Some 7"
    using inst [THEN conjunct2, THEN conjunct2, THEN conjunct2, THEN conjunct1] by simp
  have fj: "formatted_jobs (isprintable utf8_runtime) [JObj ?j]
      = Inr [JObj [(ustr ''id'', JStr (ustr ''9'')), (ustr ''title'', JNull),
                   (ustr ''code'', JNull), (ustr ''description'', JStr []),
                   (ustr ''requirements'', JStr []), (ustr ''recruit_type'', JNull),
                   (ustr ''url'',
                    JStr (ustr ''https://xiaomi.jobs.f.mioffice.cn/index/position/9/detail'')),
                   (ustr ''locations'', JList [])]]"
    by (simp add: formatted_job_def truncated_def extract_locations_def detail_url_def
        dict_get_def dict_get_default_def ustr_append)
  have f1: "format_jobs (isprintable utf8_runtime) 1 [JObj ?j]
      = Inr [[TitleLine 1 (ustr ''N/A''), JobCodeLine (ustr ''N/A''), LocationLine (ustr ''N/A''),
              TypeLine (ustr ''N/A''),
              UrlLine (ustr ''https://xiaomi.jobs.f.mioffice.cn/index/position/9/detail'')]]"
    by (simp add: format_job_def extract_locations_def location_str_def text_preview_def
        detail_url_def opt_line_def dict_get_def dict_get_default_def ustr_append)
  have q1: "print_jobs (stdout_encodes utf8_runtime) (isprintable utf8_runtime) 1 [JObj ?j]
      = ([TitleLine 1 (ustr ''N/A''), JobCodeLine (ustr ''N/A''), LocationLine (ustr ''N/A''),
          TypeLine (ustr ''N/A''),
          UrlLine (ustr ''https://xiaomi.jobs.f.mioffice.cn/index/position/9/detail''),
          BlankLine], None)"
    by (simp add: print_job_def extract_locations_def location_str_def text_preview_def
        detail_url_def opt_line_def dict_get_def dict_get_default_def ustr_append)
  have Q: "print_job_results utf8_runtime ?data
     = ([FoundLine (ustr ''7'') 1, RuleLine,
         TitleLine 1 (ustr ''N/A''), JobCodeLine (ustr ''N/A''), LocationLine (ustr ''N/A''),
         TypeLine (ustr ''N/A''),
         UrlLine (ustr ''https://xiaomi.jobs.f.mioffice.cn/index/position/9/detail''),
         BlankLine], None)"
    unfolding inst [THEN conjunct1] q1
    by (simp add: str_int_digit)
  have F: "format_job_results utf8_runtime ?data
     = Inr (ResultsReport (ustr ''7'') 1
         [[TitleLine 1 (ustr ''N/A''), JobCodeLine (ustr ''N/A''), LocationLine (ustr ''N/A''),
           TypeLine (ustr ''N/A''),
           UrlLine (ustr ''https://xiaomi.jobs.f.mioffice.cn/index/position/9/detail'')]])"
    unfolding inst [THEN conjunct2, THEN conjunct1] f1
    by (simp add: str_int_digit)
  have S: "search_jobs_internal utf8_runtime ?data
     = Inr \<lparr>success = True, total_count = 7,
            jobs = [JObj [(ustr ''id'', JStr (ustr ''9'')), (ustr ''title'', JNull),
                          (ustr ''code'', JNull), (ustr ''description'', JStr []),
                          (ustr ''requirements'', JStr []), (ustr ''recruit_type'', JNull),
                          (ustr ''url'',
                           JStr (ustr ''https://xiaomi.jobs.f.mioffice.cn/index/position/9/detail'')),
                          (ustr ''locations'', JList [])]],
            message = None\<rparr>"
    unfolding inst [THEN conjunct2, THEN conjunct2, THEN conjunct1] fj v
    by simp
  show ?thesis
    using Q F S by (intro conjI)
qed

subsection \<open>Determinism\<close>

text \<open>
  Claim C9. \<^verbatim>\<open>format_job_results\<close> reads its argument and nothing else: no global, no
  clock, no file, no stream. Of the runtime it uses the Unicode table of the interpreter,
  through \<^verbatim>\<open>str\<close> of a list or an object, and this table is the same for every call in
  one interpreter. Its outcome, the returned report or the exception, is therefore the same
  in any two runtimes with the same table, whatever stdout can encode and whatever pydantic
  is installed: two invocations on the same document give the same outcome.
\<close>

theorem format_job_results_deterministic:
  assumes "isprintable rt = isprintable rt'"
  shows "format_job_results rt x = format_job_results rt' x"
  unfolding format_job_results_def assms ..

text \<open>
  The theorem at \<^verbatim>\<open>{"code": 500, "message": 404}\<close>, on a UTF-8 terminal with a pydantic that
  coerces nothing and on an ASCII terminal with a pydantic that coerces: the same report.
\<close>

theorem format_job_results_deterministic_witness:
  "isprintable utf8_runtime = isprintable ascii_runtime
   \<and> format_job_results utf8_runtime [(ustr ''code'', JInt 500), (ustr ''message'', JInt 404)]
     = format_job_results ascii_runtime [(ustr ''code'', JInt 500), (ustr ''message'', JInt 404)]
   \<and> format_job_results ascii_runtime [(ustr ''code'', JInt 500), (ustr ''message'', JInt 404)]
     = Inr (ApiErrorReport (ustr ''404''))"
proof -
  have s: "str_int 404 = ustr ''404''"
    by (simp add: str_int_def str_nat.simps ustr_def)
  have i: "isprintable utf8_runtime = isprintable ascii_runtime"
    by simp
  have r: "format_job_results ascii_runtime [(ustr ''code'', JInt 500), (ustr ''message'', JInt 404)]
      = Inr (ApiErrorReport (ustr ''404''))"
    by (simp add: format_job_results_def dict_get_def dict_get_default_def s)
  show ?thesis
    using format_job_results_deterministic [OF i] i r by (intro conjI)
qed

text \<open>
  The other two functions do depend on their surroundings. On the same document
  \<^verbatim>\<open>print_job_results\<close> prints the failure on the UTF-8 terminal and raises on the ASCII
  terminal, which cannot encode the cross mark; \<^verbatim>\<open>search_jobs_internal\<close> raises with the
  pydantic that does not make a string of the number 404, and returns the message
  \<^verbatim>\<open>404\<close> with the one that does.
\<close>

lemma print_and_search_depend_on_runtime:
  "print_job_results utf8_runtime [(ustr ''code'', JInt 500), (ustr ''message'', JInt 404)]
     = ([ApiErrorLine (ustr ''404'')], None)"
  "print_job_results ascii_runtime [(ustr ''code'', JInt 500), (ustr ''message'', JInt 404)]
     = ([], Some UnicodeEncodeError)"
  "search_jobs_internal utf8_runtime [(ustr ''code'', JInt 500), (ustr ''message'', JInt 404)]
     = Inl HTTPException"
  "search_jobs_internal ascii_runtime [(ustr ''code'', JInt 500), (ustr ''message'', JInt 404)]
     = Inr \<lparr>success = False, total_count = 0, jobs = [], message = Some (ustr ''404'')\<rparr>"
proof -
  have s: "str_int 404 = ustr ''404''"
    by (simp add: str_int_def str_nat.simps ustr_def)
  show "print_job_results utf8_runtime [(ustr ''code'', JInt 500), (ustr ''message'', JInt 404)]
     = ([ApiErrorLine (ustr ''404'')], None)"
    by (simp add: print_job_results_def dict_get_def dict_get_default_def s)
  show "print_job_results ascii_runtime [(ustr ''code'', JInt 500), (ustr ''message'', JInt 404)]
     = ([], Some UnicodeEncodeError)"
    by (simp add: print_job_results_def dict_get_def dict_get_default_def s encodable_def
        ascii_encodes_def)
  show "search_jobs_internal utf8_runtime [(ustr ''code'', JInt 500), (ustr ''message'', JInt 404)]
     = Inl HTTPException"
    by (simp add: search_jobs_internal_def search_jobs_try_def JobSearchResponse_init_def
        validate_total_count_def validate_message_def no_coercion_str_def dict_get_def
        dict_get_default_def)
  show "search_jobs_internal ascii_runtime [(ustr ''code'', JInt 500), (ustr ''message'', JInt 404)]
     = Inr \<lparr>success = False, total_count = 0, jobs = [], message = Some (ustr ''404'')\<rparr>"
    by (simp add: search_jobs_internal_def search_jobs_try_def JobSearchResponse_init_def
        validate_total_count_def validate_message_def str_coercion_def dict_get_def
        dict_get_default_def s)
qed

end
